theory Spec2Isabelle
  imports Main
begin

section \<open>Strings as Python uses them\<close>

text \<open>
  A Python \<open>str\<close> is modelled as a \<open>string\<close>, a list of characters, each one a code
  point below 256. The operations below are the ones \<open>assistant.py\<close> applies to strings:
  the substring test \<open>needle in hay\<close>, \<open>str.strip()\<close>, \<open>str.split(',')\<close>,
  \<open>', '.join(...)\<close>, \<open>str(n)\<close> and \<open>int(s)\<close>.
\<close>

fun starts_with :: "string \<Rightarrow> string \<Rightarrow> bool" where
  "starts_with [] hay = True"
| "starts_with (n # ns) [] = False"
| "starts_with (n # ns) (h # hs) = (n = h \<and> starts_with ns hs)"

text \<open>\<open>contains needle hay\<close> is Python's \<open>needle in hay\<close>.\<close>

fun contains :: "string \<Rightarrow> string \<Rightarrow> bool" where
  "contains needle [] = (needle = [])"
| "contains needle (h # hs) = (starts_with needle (h # hs) \<or> contains needle hs)"

text \<open>
  \<open>str.isspace\<close> on one character below 256, the whitespace that \<open>str.strip()\<close> removes:
  tab, line feed, vertical tab, form feed, carriage return, the four separators 0x1C to
  0x1F, the space, the next-line control 0x85 and the no-break space 0xA0.
\<close>

definition is_space :: "char \<Rightarrow> bool" where
  "is_space c = (c \<in> set [CHR 0x09, CHR 0x0A, CHR 0x0B, CHR 0x0C, CHR 0x0D,
                            CHR 0x1C, CHR 0x1D, CHR 0x1E, CHR 0x1F, CHR '' '',
                            CHR 0x85, CHR 0xA0])"

definition py_strip :: "string \<Rightarrow> string" where
  "py_strip s = rev (dropWhile is_space (rev (dropWhile is_space s)))"

text \<open>
  \<open>split_on sep s\<close> is \<open>s.split(sep)\<close> for a one-character separator: it cuts at every
  occurrence, keeps empty pieces, and always returns at least one piece.
\<close>

fun split_on :: "char \<Rightarrow> string \<Rightarrow> string list" where
  "split_on sep [] = [[]]"
| "split_on sep (c # cs) =
     (if c = sep then [] # split_on sep cs
      else (case split_on sep cs of
              [] \<Rightarrow> [[c]]
            | p # ps \<Rightarrow> (c # p) # ps))"

fun py_join :: "string \<Rightarrow> string list \<Rightarrow> string" where
  "py_join sep [] = []"
| "py_join sep [x] = x"
| "py_join sep (x # y # ys) = x @ sep @ py_join sep (y # ys)"

section \<open>Exceptions, the environment and the program state\<close>

text \<open>
  Exceptions the standard library raises on the program's own data are \<open>Lib\<close>
  exceptions: a rejected date string, a rejected integer literal, an overflow of the date
  arithmetic, the end of the console input. Exceptions that come back from a remote
  service or from the OAuth library are \<open>Ext\<close> exceptions, which carry their text
  \<open>str(e)\<close> and, for the calendar client's HTTP errors, the \<open>content\<close> attribute.
  All of them are subclasses of \<open>Exception\<close>.
\<close>

datatype lib_error =
    BadDate string
  | BadInt string
  | DateOverflow
  | EndOfInput

datatype exn =
    Lib lib_error
  | Ext string "string option"

fun exn_content :: "exn \<Rightarrow> string option" where
  "exn_content (Lib l) = None"
| "exn_content (Ext m c) = c"

datatype agent = TaskAgent | SchedulingAgent

text \<open>
  Every interaction of the program with the outside is recorded, in order, as an action.
\<close>

datatype event_time =
    AllDay string
  | Timed string string

record event =
  summary :: string
  ev_start :: event_time
  ev_end :: event_time
  description :: "string option"
  attendees :: "string list option"

record list_query =
  calendarId :: string
  timeMin :: string
  timeMax :: string
  timeZone :: string
  singleEvents :: bool
  orderBy :: string

datatype action =
    Print string
  | Input string "string option"
  | RunAgent agent string
  | TokenExists
  | LoadToken
  | Refresh
  | ConsentFlow
  | WriteToken
  | Build
  | ListEvents list_query
  | InsertEvent string event

record state =
  stdin :: "string list"
  trace :: "action list"

text \<open>
  The credentials object of the OAuth library, as far as \<open>get_calendar_service\<close> reads
  it, and the service handle that \<open>build\<close> returns for it.
\<close>

record creds =
  valid :: bool
  expired :: bool
  refresh_token :: "string option"

datatype service = Service creds

record date =
  year :: int
  month :: int
  day :: int

text \<open>
  The environment: what the libraries and remote services answer. Each answer may depend
  on everything that has happened so far (the trace). \<open>Inl e\<close> is a raised exception.
  \<^item> \<open>lib_message\<close>: the text \<open>str(e)\<close> of a standard-library exception;
  \<^item> \<open>agent_reply\<close>: \<open>Runner.run_sync(agent, prompt).final_output\<close>;
  \<^item> \<open>token_exists\<close>: \<open>os.path.exists(token_path)\<close>;
  \<^item> \<open>load_token\<close>: \<open>Credentials.from_authorized_user_file(token_path, SCOPES)\<close>;
  \<^item> \<open>refresh_creds\<close>: \<open>creds.refresh(Request())\<close>, giving the refreshed credentials;
  \<^item> \<open>consent_flow\<close>: \<open>InstalledAppFlow.from_client_secrets_file(...)\<close> followed by
    \<open>run_local_server(port=0)\<close>;
  \<^item> \<open>write_token\<close>: opening and writing the token file (\<open>Some e\<close> when it raises);
  \<^item> \<open>build_service\<close>: \<open>build('calendar', 'v3', credentials=creds)\<close>;
  \<^item> \<open>today\<close>: \<open>datetime.date.today()\<close>;
  \<^item> \<open>utcoffset\<close>: the offset from UTC, in minutes, that \<open>pytz\<close> gives 09:00 wall-clock
    time in America/New\_York on a date;
  \<^item> \<open>events_list\<close>: \<open>service.events().list(...).execute().get('items', [])\<close>;
  \<^item> \<open>events_insert\<close>: \<open>service.events().insert(...).execute()\<close> (\<open>Some e\<close> when it
    raises);
  \<^item> \<open>error_details\<close>: the text of \<open>json.loads(e.content.decode('utf-8'))\<close>;
  \<^item> \<open>int_max_str_digits\<close>: the interpreter's limit on the number of digits \<open>int(s)\<close>
    accepts (\<open>sys.get_int_max_str_digits()\<close>; 0 when there is none).
\<close>

record world =
  lib_message :: "lib_error \<Rightarrow> string"
  agent_reply :: "action list \<Rightarrow> agent \<Rightarrow> string \<Rightarrow> exn + string"
  token_exists :: "action list \<Rightarrow> bool"
  load_token :: "action list \<Rightarrow> exn + creds"
  refresh_creds :: "action list \<Rightarrow> creds \<Rightarrow> exn + creds"
  consent_flow :: "action list \<Rightarrow> exn + creds"
  write_token :: "action list \<Rightarrow> creds \<Rightarrow> exn option"
  build_service :: "action list \<Rightarrow> creds \<Rightarrow> exn + service"
  today :: "action list \<Rightarrow> date"
  utcoffset :: "date \<Rightarrow> int"
  events_list :: "action list \<Rightarrow> service \<Rightarrow> list_query \<Rightarrow> exn + string list"
  events_insert :: "action list \<Rightarrow> service \<Rightarrow> event \<Rightarrow> exn option"
  error_details :: "string \<Rightarrow> exn + string"
  int_max_str_digits :: nat

fun exn_str :: "world \<Rightarrow> exn \<Rightarrow> string" where
  "exn_str w (Lib l) = lib_message w l"
| "exn_str w (Ext m c) = m"

definition log :: "action \<Rightarrow> state \<Rightarrow> state" where
  "log a s = s\<lparr>trace := trace s @ [a]\<rparr>"

section \<open>Numbers and dates of the standard library\<close>

definition is_digit :: "char \<Rightarrow> bool" where
  "is_digit c = (c \<in> set ''0123456789'')"

definition digit_val :: "char \<Rightarrow> int" where
  "digit_val c = int (of_char c) - 48"

definition digit_char :: "nat \<Rightarrow> char" where
  "digit_char n = char_of (48 + n mod 10)"

fun str_nat :: "nat \<Rightarrow> string" where
  "str_nat n = (if n < 10 then [digit_char n] else str_nat (n div 10) @ [digit_char n])"

declare str_nat.simps [simp del]

text \<open>\<open>str_int n\<close> is \<open>str(n)\<close>, also what an f-string writes for an integer.\<close>

definition str_int :: "int \<Rightarrow> string" where
  "str_int i = (if i < 0 then CHR ''-'' # str_nat (nat (- i)) else str_nat (nat i))"

text \<open>\<open>zero_pad k i\<close> is \<open>'%0kd' % i\<close> for a non-negative \<open>i\<close>.\<close>

definition zero_pad :: "nat \<Rightarrow> int \<Rightarrow> string" where
  "zero_pad k i = (let t = str_int i in replicate (k - length t) CHR ''0'' @ t)"

text \<open>
  \<open>int(s)\<close> in base 10. The whitespace it skips at both ends is not that of
  \<open>str.strip()\<close>: it is the space and the five controls 0x09 to 0x0D, and, since a
  string that is not ASCII has its whitespace above 127 turned into spaces first, 0x85
  and 0xA0; the separators 0x1C to 0x1F are not skipped. After the whitespace one sign is
  allowed, and the digits may be grouped by single underscores. \<open>digit_groups\<close> reads the
  digits and returns them without the underscores. A literal of more than 640 digits
  that exceeds the interpreter's limit is rejected as well.
\<close>

definition is_int_space :: "char \<Rightarrow> bool" where
  "is_int_space c = (c \<in> set [CHR 0x09, CHR 0x0A, CHR 0x0B, CHR 0x0C, CHR 0x0D, CHR '' '',
                                CHR 0x85, CHR 0xA0])"

definition int_strip :: "string \<Rightarrow> string" where
  "int_strip s = rev (dropWhile is_int_space (rev (dropWhile is_int_space s)))"

fun digit_groups :: "string \<Rightarrow> string option" where
  "digit_groups [] = None"
| "digit_groups [c] = (if is_digit c then Some [c] else None)"
| "digit_groups (c # d # cs) =
     (if \<not> is_digit c then None
      else if d = CHR ''_'' then map_option ((#) c) (digit_groups cs)
      else map_option ((#) c) (digit_groups (d # cs)))"

definition digits_value :: "string \<Rightarrow> int" where
  "digits_value ds = foldl (\<lambda>acc c. 10 * acc + digit_val c) 0 ds"

definition py_int :: "world \<Rightarrow> string \<Rightarrow> exn + int" where
  "py_int w s =
     (let t = int_strip s;
          (neg, body) = (case t of
                           c # cs \<Rightarrow> if c = CHR ''-'' then (True, cs)
                                     else if c = CHR ''+'' then (False, cs)
                                     else (False, t)
                         | [] \<Rightarrow> (False, t))
      in case digit_groups body of
           None \<Rightarrow> Inl (Lib (BadInt s))
         | Some ds \<Rightarrow>
             if 640 < length ds \<and> 0 < int_max_str_digits w
                \<and> int_max_str_digits w < length ds
             then Inl (Lib (BadInt s))
             else Inr (if neg then - digits_value ds else digits_value ds))"

subsection \<open>Dates\<close>

text \<open>
  The calendar arithmetic of the \<open>datetime\<close> module: leap years, the ordinal of a date
  (day 1 is 0001-01-01) and its inverse, as the module computes them.
\<close>

definition is_leap :: "int \<Rightarrow> bool" where
  "is_leap y = (y mod 4 = 0 \<and> (y mod 100 \<noteq> 0 \<or> y mod 400 = 0))"

definition days_in_month :: "int \<Rightarrow> int \<Rightarrow> int" where
  "days_in_month y m =
     (if m = 2 then (if is_leap y then 29 else 28)
      else if m = 4 \<or> m = 6 \<or> m = 9 \<or> m = 11 then 30 else 31)"

definition days_before_year :: "int \<Rightarrow> int" where
  "days_before_year y = (y - 1) * 365 + (y - 1) div 4 - (y - 1) div 100 + (y - 1) div 400"

definition days_before_month_table :: "int list" where
  "days_before_month_table = [0, 0, 31, 59, 90, 120, 151, 181, 212, 243, 273, 304, 334]"

definition days_before_month :: "int \<Rightarrow> int \<Rightarrow> int" where
  "days_before_month y m =
     days_before_month_table ! nat m + (if 2 < m \<and> is_leap y then 1 else 0)"

definition ymd2ord :: "date \<Rightarrow> int" where
  "ymd2ord d = days_before_year (year d) + days_before_month (year d) (month d) + day d"

definition max_ordinal :: int where
  "max_ordinal = 3652059"

definition ord2ymd :: "int \<Rightarrow> date" where
  "ord2ymd n0 =
     (let n = n0 - 1;
          n400 = n div 146097; n = n mod 146097;
          n100 = n div 36524; n = n mod 36524;
          n4 = n div 1461; n = n mod 1461;
          n1 = n div 365; n = n mod 365;
          y = n400 * 400 + 1 + n100 * 100 + n4 * 4 + n1
      in if n1 = 4 \<or> n100 = 4 then \<lparr>year = y - 1, month = 12, day = 31\<rparr>
         else
           (let leapyear = (n1 = 3 \<and> (n4 \<noteq> 24 \<or> n100 = 3));
                m = (n + 50) div 32;
                preceding = days_before_month_table ! nat m + (if 2 < m \<and> leapyear then 1 else 0);
                (m, preceding) =
                  (if n < preceding
                   then (m - 1,
                         preceding - (days_in_month 1 (m - 1)
                                       + (if m - 1 = 2 \<and> leapyear then 1 else 0)))
                   else (m, preceding))
            in \<lparr>year = y, month = m, day = n - preceding + 1\<rparr>))"

definition valid_date :: "date \<Rightarrow> bool" where
  "valid_date d =
     (1 \<le> year d \<and> year d \<le> 9999 \<and> 1 \<le> month d \<and> month d \<le> 12
      \<and> 1 \<le> day d \<and> day d \<le> days_in_month (year d) (month d))"

text \<open>\<open>date + timedelta(days=n)\<close>: an \<open>OverflowError\<close> outside years 1 to 9999.\<close>

definition date_add_days :: "date \<Rightarrow> int \<Rightarrow> exn + date" where
  "date_add_days d n =
     (let k = ymd2ord d + n
      in if 0 < k \<and> k \<le> max_ordinal then Inr (ord2ymd k) else Inl (Lib DateOverflow))"

text \<open>
  \<open>date.isoformat()\<close>, and \<open>date.strftime('%Y-%m-%d')\<close>, which writes the same text for
  a year of four digits.
\<close>

definition date_isoformat :: "date \<Rightarrow> string" where
  "date_isoformat d =
     zero_pad 4 (year d) @ ''-'' @ zero_pad 2 (month d) @ ''-'' @ zero_pad 2 (day d)"

definition date_strftime :: "date \<Rightarrow> string" where
  "date_strftime d = date_isoformat d"

subsection \<open>Parsing a date, and date-times\<close>

text \<open>
  \<open>datetime.strptime(s, '%Y-%m-%d')\<close>. The format is matched from the left: the year is
  four digits, the month is \<open>1[0-2]|0[1-9]|[1-9]\<close>, the day is
  \<open>3[01]|[12]\d|0[1-9]|[1-9]| [1-9]\<close>, with a hyphen between them, and nothing may
  remain after the day. The numbers must then name a date that exists.
\<close>

definition parse_month :: "string \<Rightarrow> (int \<times> string) option" where
  "parse_month s =
     (case s of
        a # b # r \<Rightarrow>
          if a = CHR ''1'' \<and> b \<in> set ''012'' then Some (10 + digit_val b, r)
          else if a = CHR ''0'' \<and> b \<in> set ''123456789'' then Some (digit_val b, r)
          else if a \<in> set ''123456789'' then Some (digit_val a, b # r)
          else None
      | [a] \<Rightarrow> if a \<in> set ''123456789'' then Some (digit_val a, []) else None
      | [] \<Rightarrow> None)"

definition parse_day :: "string \<Rightarrow> (int \<times> string) option" where
  "parse_day s =
     (case s of
        a # b # r \<Rightarrow>
          if a = CHR ''3'' \<and> b \<in> set ''01'' then Some (30 + digit_val b, r)
          else if a \<in> set ''12'' \<and> is_digit b then Some (10 * digit_val a + digit_val b, r)
          else if a = CHR ''0'' \<and> b \<in> set ''123456789'' then Some (digit_val b, r)
          else if a \<in> set ''123456789'' then Some (digit_val a, b # r)
          else if a = CHR '' '' \<and> b \<in> set ''123456789'' then Some (digit_val b, r)
          else None
      | [a] \<Rightarrow> if a \<in> set ''123456789'' then Some (digit_val a, []) else None
      | [] \<Rightarrow> None)"

definition strptime :: "string \<Rightarrow> exn + date" where
  "strptime s =
     (case s of
        y1 # y2 # y3 # y4 # sep1 # r1 \<Rightarrow>
          if list_all is_digit [y1, y2, y3, y4] \<and> sep1 = CHR ''-'' then
            (case parse_month r1 of
               Some (m, sep2 # r2) \<Rightarrow>
                 if sep2 = CHR ''-'' then
                   (case parse_day r2 of
                      Some (d, []) \<Rightarrow>
                        (let dt = \<lparr>year = digits_value [y1, y2, y3, y4], month = m, day = d\<rparr>
                         in if valid_date dt then Inr dt else Inl (Lib (BadDate s)))
                    | _ \<Rightarrow> Inl (Lib (BadDate s)))
                 else Inl (Lib (BadDate s))
             | _ \<Rightarrow> Inl (Lib (BadDate s)))
          else Inl (Lib (BadDate s))
      | _ \<Rightarrow> Inl (Lib (BadDate s)))"

text \<open>
  A date-time with its offset from UTC in minutes, as \<open>est.localize\<close> returns it.
\<close>

record datetime =
  dt_date :: date
  hour :: int
  minute :: int
  second :: int
  microsecond :: int
  offset :: int

text \<open>
  \<open>nine_am w d\<close> is 09:00:00 on the date \<open>d\<close> with the zone's offset there.
  \<open>localize_9am\<close> is
  \<open>est.localize(start_date.replace(hour=9, minute=0, second=0, microsecond=0))\<close> for the
  midnight \<open>start_date\<close> that \<open>strptime\<close> returns. To find the offset, \<open>localize\<close> first
  computes the date-times one day before and one day after: on the first and on the last
  day of the calendar (0001-01-01 and 9999-12-31) that sum raises \<open>OverflowError\<close>.
\<close>

definition nine_am :: "world \<Rightarrow> date \<Rightarrow> datetime" where
  "nine_am w d =
     \<lparr>dt_date = d, hour = 9, minute = 0, second = 0, microsecond = 0, offset = utcoffset w d\<rparr>"

definition localize_9am :: "world \<Rightarrow> date \<Rightarrow> exn + datetime" where
  "localize_9am w d =
     (let k = ymd2ord d
      in if 0 < k - 1 \<and> k + 1 \<le> max_ordinal then Inr (nine_am w d)
         else Inl (Lib DateOverflow))"

text \<open>
  \<open>dt + datetime.timedelta(minutes=n)\<close>. The \<open>timedelta\<close> is built first and overflows
  beyond 999999999 days; the sum is computed on the ordinal of the date and the seconds
  of the day, and overflows outside years 1 to 9999. The offset from UTC is kept.
\<close>

definition add_minutes :: "datetime \<Rightarrow> int \<Rightarrow> exn + datetime" where
  "add_minutes dt n =
     (let delta_days = (n * 60) div 86400;
          delta_seconds = (n * 60) mod 86400;
          total = hour dt * 3600 + minute dt * 60 + second dt + delta_seconds;
          days = ymd2ord (dt_date dt) + delta_days + total div 86400;
          secs = total mod 86400
      in if 999999999 < \<bar>delta_days\<bar> \<or> 999999999 < \<bar>days\<bar> then Inl (Lib DateOverflow)
         else if 0 < days \<and> days \<le> max_ordinal
         then Inr \<lparr>dt_date = ord2ymd days, hour = secs div 3600,
                   minute = (secs mod 3600) div 60, second = (secs mod 3600) mod 60,
                   microsecond = microsecond dt, offset = offset dt\<rparr>
         else Inl (Lib DateOverflow))"

text \<open>\<open>datetime.isoformat()\<close> of a date-time with an offset of whole minutes.\<close>

definition offset_isoformat :: "int \<Rightarrow> string" where
  "offset_isoformat off =
     (if off < 0 then ''-'' else ''+'')
       @ zero_pad 2 (\<bar>off\<bar> div 60) @ '':'' @ zero_pad 2 (\<bar>off\<bar> mod 60)"

definition isoformat :: "datetime \<Rightarrow> string" where
  "isoformat dt =
     date_isoformat (dt_date dt) @ ''T'' @ zero_pad 2 (hour dt) @ '':''
       @ zero_pad 2 (minute dt) @ '':'' @ zero_pad 2 (second dt)
       @ (if microsecond dt = 0 then [] else ''.'' @ zero_pad 6 (microsecond dt))
       @ offset_isoformat (offset dt)"

section \<open>Calendar Gateway\<close>

text \<open>
  \<open>get_calendar_service\<close> returns either a string (an error message) or a service
  handle; its callers tell them apart with \<open>isinstance(service, str)\<close>.
\<close>

datatype auth_result =
    ErrorMessage string
  | Session service

definition os_path_exists :: "world \<Rightarrow> state \<Rightarrow> bool \<times> state" where
  "os_path_exists w s = (token_exists w (trace s), log TokenExists s)"

definition from_authorized_user_file :: "world \<Rightarrow> state \<Rightarrow> (exn + creds) \<times> state" where
  "from_authorized_user_file w s = (load_token w (trace s), log LoadToken s)"

definition creds_refresh :: "world \<Rightarrow> creds \<Rightarrow> state \<Rightarrow> (exn + creds) \<times> state" where
  "creds_refresh w c s = (refresh_creds w (trace s) c, log Refresh s)"

definition run_local_server :: "world \<Rightarrow> state \<Rightarrow> (exn + creds) \<times> state" where
  "run_local_server w s = (consent_flow w (trace s), log ConsentFlow s)"

definition token_write :: "world \<Rightarrow> creds \<Rightarrow> state \<Rightarrow> exn option \<times> state" where
  "token_write w c s = (write_token w (trace s) c, log WriteToken s)"

definition build :: "world \<Rightarrow> creds \<Rightarrow> state \<Rightarrow> (exn + service) \<times> state" where
  "build w c s = (build_service w (trace s) c, log Build s)"

definition authorizing_error :: "world \<Rightarrow> exn \<Rightarrow> string" where
  "authorizing_error w e =
     ''Error authorizing Google Calendar: '' @ exn_str w e
       @ ''. Pre-authenticate by running option 3 once and approving the OAuth prompt.''"

definition authentication_failed :: string where
  "authentication_failed =
     ''Google Calendar authentication failed. Please ensure credentials.json is valid and pre-authenticate.''"

text \<open>Lines 28 to 31: the cached credentials, \<open>None\<close> when there is no token file.\<close>

definition cached_creds :: "world \<Rightarrow> state \<Rightarrow> (exn + creds option) \<times> state" where
  "cached_creds w s =
     (case os_path_exists w s of
        (True, s1) \<Rightarrow>
          (case from_authorized_user_file w s1 of
             (Inl e, s2) \<Rightarrow> (Inl e, s2)
           | (Inr c, s2) \<Rightarrow> (Inr (Some c), s2))
      | (False, s1) \<Rightarrow> (Inr None, s1))"

text \<open>
  Lines 36 to 42, the \<open>try\<close> block of the consent flow: \<open>Inl msg\<close> is the error string
  it returns from \<open>get_calendar_service\<close>, \<open>Inr c\<close> the new credentials.
\<close>

definition consent :: "world \<Rightarrow> state \<Rightarrow> (string + creds) \<times> state" where
  "consent w s =
     (case run_local_server w s of
        (Inl e, s1) \<Rightarrow> (Inl (authorizing_error w e), s1)
      | (Inr c, s1) \<Rightarrow>
          (case token_write w c s1 of
             (Some e, s2) \<Rightarrow> (Inl (authorizing_error w e), s2)
           | (None, s2) \<Rightarrow> (Inr c, s2)))"

definition truthy :: "string option \<Rightarrow> bool" where
  "truthy x = (case x of None \<Rightarrow> False | Some t \<Rightarrow> t \<noteq> [])"

text \<open>
  Lines 32 to 42. \<open>not creds\<close> holds exactly when \<open>creds\<close> is \<open>None\<close>. The refresh at
  line 34 is outside the \<open>try\<close> block: an exception it raises leaves the function
  (\<open>Inl e\<close>). \<open>Inr (Inl msg)\<close> is the error string returned at line 42.
\<close>

definition renew :: "world \<Rightarrow> creds option \<Rightarrow> state \<Rightarrow> (exn + string + creds option) \<times> state" where
  "renew w cached s =
     (case cached of
        Some c0 \<Rightarrow>
          if valid c0 then (Inr (Inr cached), s)
          else if expired c0 \<and> truthy (refresh_token c0) then
            (case creds_refresh w c0 s of
               (Inl e, s1) \<Rightarrow> (Inl e, s1)
             | (Inr c, s1) \<Rightarrow> (Inr (Inr (Some c)), s1))
          else
            (case consent w s of
               (Inl msg, s1) \<Rightarrow> (Inr (Inl msg), s1)
             | (Inr c, s1) \<Rightarrow> (Inr (Inr (Some c)), s1))
      | None \<Rightarrow>
          (case consent w s of
             (Inl msg, s1) \<Rightarrow> (Inr (Inl msg), s1)
           | (Inr c, s1) \<Rightarrow> (Inr (Inr (Some c)), s1)))"

definition get_calendar_service :: "world \<Rightarrow> state \<Rightarrow> (exn + auth_result) \<times> state" where
  "get_calendar_service w s =
     (case cached_creds w s of
        (Inl e, s1) \<Rightarrow> (Inl e, s1)
      | (Inr cached, s1) \<Rightarrow>
          (case renew w cached s1 of
             (Inl e, s2) \<Rightarrow> (Inl e, s2)
           | (Inr (Inl msg), s2) \<Rightarrow> (Inr (ErrorMessage msg), s2)
           | (Inr (Inr None), s2) \<Rightarrow> (Inr (ErrorMessage authentication_failed), s2)
           | (Inr (Inr (Some c)), s2) \<Rightarrow>
               (case build w c s2 of
                  (Inl e, s3) \<Rightarrow> (Inl e, s3)
                | (Inr svc, s3) \<Rightarrow> (Inr (Session svc), s3))))"

definition events_insert_execute :: "world \<Rightarrow> service \<Rightarrow> event \<Rightarrow> state \<Rightarrow> exn option \<times> state" where
  "events_insert_execute w svc ev s =
     (events_insert w (trace s) svc ev, log (InsertEvent ''primary'' ev) s)"

definition events_list_execute ::
  "world \<Rightarrow> service \<Rightarrow> list_query \<Rightarrow> state \<Rightarrow> (exn + string list) \<times> state" where
  "events_list_execute w svc q s = (events_list w (trace s) svc q, log (ListEvents q) s)"

section \<open>Agent Invoker\<close>

definition handoff_sentinel :: string where
  "handoff_sentinel = ''Handoff to SchedulingAgent''"

definition run_sync :: "world \<Rightarrow> agent \<Rightarrow> string \<Rightarrow> state \<Rightarrow> (exn + string) \<times> state" where
  "run_sync w ag prompt s = (agent_reply w (trace s) ag prompt, log (RunAgent ag prompt) s)"

section \<open>Action handlers\<close>

subsection \<open>\<open>generate_meeting_brief\<close>\<close>

definition brief_prompt :: "string \<Rightarrow> string" where
  "brief_prompt meeting_notes =
     ''Generate a meeting brief with key takeaways and action items from these notes: ''
       @ meeting_notes"

definition brief_rejection :: string where
  "brief_rejection = ''Meeting brief generation does not require scheduling.''"

definition generate_meeting_brief :: "world \<Rightarrow> string \<Rightarrow> state \<Rightarrow> string \<times> state" where
  "generate_meeting_brief w meeting_notes s =
     (case run_sync w TaskAgent (brief_prompt meeting_notes) s of
        (Inl e, s1) \<Rightarrow> (''Error generating brief: '' @ exn_str w e, s1)
      | (Inr final_output, s1) \<Rightarrow>
          (if contains handoff_sentinel final_output then brief_rejection
           else final_output, s1))"

subsection \<open>\<open>create_reminder\<close>\<close>

definition reminder_prompt :: "string \<Rightarrow> string" where
  "reminder_prompt task_description = ''Create a reminder for: '' @ task_description"

definition reminder_rejection :: string where
  "reminder_rejection =
     ''Reminder creation requires scheduling, but this function is for reminders only.''"

definition reminder_error :: "world \<Rightarrow> exn \<Rightarrow> string" where
  "reminder_error w e = ''Error creating reminder: '' @ exn_str w e"

definition integration_failed :: "string \<Rightarrow> string" where
  "integration_failed service =
     ''AI reminder created, but calendar integration failed: '' @ service"

definition reminder_event :: "string \<Rightarrow> string \<Rightarrow> date \<Rightarrow> date \<Rightarrow> event" where
  "reminder_event task_description final_output td tomorrow =
     \<lparr>summary = task_description,
      ev_start = AllDay (date_isoformat td),
      ev_end = AllDay (date_isoformat tomorrow),
      description = Some final_output,
      attendees = None\<rparr>"

definition reminder_added :: "string \<Rightarrow> date \<Rightarrow> string" where
  "reminder_added final_output td =
     final_output @ [CHR 0x0A] @ ''Reminder also added to Google Calendar on ''
       @ date_strftime td @ ''.''"

text \<open>
  The whole body is inside \<open>try ... except Exception\<close>, so every exception raised on the
  way, also one raised by \<open>get_calendar_service\<close>, becomes the \<open>reminder_error\<close> text.
\<close>

definition create_reminder :: "world \<Rightarrow> string \<Rightarrow> state \<Rightarrow> string \<times> state" where
  "create_reminder w task_description s =
     (case run_sync w TaskAgent (reminder_prompt task_description) s of
        (Inl e, s1) \<Rightarrow> (reminder_error w e, s1)
      | (Inr final_output, s1) \<Rightarrow>
          if contains handoff_sentinel final_output then (reminder_rejection, s1)
          else
            (case get_calendar_service w s1 of
               (Inl e, s2) \<Rightarrow> (reminder_error w e, s2)
             | (Inr (ErrorMessage service), s2) \<Rightarrow> (integration_failed service, s2)
             | (Inr (Session service), s2) \<Rightarrow>
                 (let td = today w (trace s2)
                  in case date_add_days td 1 of
                       Inl e \<Rightarrow> (reminder_error w e, s2)
                     | Inr tomorrow \<Rightarrow>
                         (case events_insert_execute w service
                                 (reminder_event task_description final_output td tomorrow) s2 of
                            (Some e, s3) \<Rightarrow> (reminder_error w e, s3)
                          | (None, s3) \<Rightarrow> (reminder_added final_output td, s3)))))"

subsection \<open>\<open>schedule_meeting\<close>\<close>

definition busy_message :: string where
  "busy_message = ''Time slot is busy. Please choose another date.''"

definition attendees_prompt :: string where
  "attendees_prompt =
     ''Enter attendee email addresses (comma-separated, or press Enter to skip): ''"

text \<open>
  \<open>input(prompt)\<close> writes the prompt and reads one line; at the end of the input it
  raises \<open>EOFError\<close>.
\<close>

definition input_line :: "string \<Rightarrow> state \<Rightarrow> (exn + string) \<times> state" where
  "input_line prompt s =
     (case stdin s of
        [] \<Rightarrow> (Inl (Lib EndOfInput), log (Input prompt None) s)
      | l # ls \<Rightarrow> (Inr l, log (Input prompt (Some l)) (s\<lparr>stdin := ls\<rparr>)))"

definition print :: "string \<Rightarrow> state \<Rightarrow> state" where
  "print text s = log (Print text) s"

text \<open>Lines 103 to 106: the window of the meeting.\<close>

definition meeting_window :: "world \<Rightarrow> string \<Rightarrow> int \<Rightarrow> exn + datetime \<times> datetime" where
  "meeting_window w date_str duration_minutes =
     (case strptime date_str of
        Inl e \<Rightarrow> Inl e
      | Inr start_date \<Rightarrow>
          (case localize_9am w start_date of
             Inl e \<Rightarrow> Inl e
           | Inr start_time \<Rightarrow>
               (case add_minutes start_time duration_minutes of
                  Inl e \<Rightarrow> Inl e
                | Inr end_time \<Rightarrow> Inr (start_time, end_time))))"

definition conflict_query :: "datetime \<Rightarrow> datetime \<Rightarrow> list_query" where
  "conflict_query start_time end_time =
     \<lparr>calendarId = ''primary'',
      timeMin = isoformat start_time,
      timeMax = isoformat end_time,
      timeZone = ''America/New_York'',
      singleEvents = True,
      orderBy = ''startTime''\<rparr>"

text \<open>Lines 121 to 124: the entries of the attendee input, and those that are kept.\<close>

definition attendee_emails :: "string \<Rightarrow> string list" where
  "attendee_emails attendees_input = map py_strip (split_on CHR '','' attendees_input)"

definition attendees_of :: "string \<Rightarrow> string list" where
  "attendees_of attendees_input =
     (if py_strip attendees_input \<noteq> []
      then filter (\<lambda>email. email \<noteq> [] \<and> CHR ''@'' \<in> set email) (attendee_emails attendees_input)
      else [])"

definition meeting_event :: "string \<Rightarrow> datetime \<Rightarrow> datetime \<Rightarrow> string list \<Rightarrow> event" where
  "meeting_event meeting_title start_time end_time atts =
     \<lparr>summary = meeting_title,
      ev_start = Timed (isoformat start_time) ''America/New_York'',
      ev_end = Timed (isoformat end_time) ''America/New_York'',
      description = None,
      attendees = Some atts\<rparr>"

definition attendees_text :: "string \<Rightarrow> string" where
  "attendees_text attendees_input =
     (if attendees_of attendees_input \<noteq> []
      then py_join '', '' (attendee_emails attendees_input) else ''none'')"

definition confirm_prompt :: "string \<Rightarrow> string \<Rightarrow> int \<Rightarrow> string \<Rightarrow> string" where
  "confirm_prompt meeting_title date_str duration_minutes attendees_input =
     ''Confirm a meeting titled '' @ [CHR 0x27] @ meeting_title @ [CHR 0x27]
       @ '' scheduled on '' @ date_str @ '' at 9:00 AM EST for ''
       @ str_int duration_minutes @ '' minutes with attendees ''
       @ attendees_text attendees_input @ ''.''"

text \<open>Lines 102 to 134, the \<open>try\<close> block: \<open>Inl e\<close> is an exception raised inside it.\<close>

definition schedule_try ::
  "world \<Rightarrow> service \<Rightarrow> string \<Rightarrow> int \<Rightarrow> string \<Rightarrow> state \<Rightarrow> (exn + string) \<times> state" where
  "schedule_try w service meeting_title duration_minutes date_str s =
     (case meeting_window w date_str duration_minutes of
        Inl e \<Rightarrow> (Inl e, s)
      | Inr (start_time, end_time) \<Rightarrow>
          (case events_list_execute w service (conflict_query start_time end_time) s of
             (Inl e, s1) \<Rightarrow> (Inl e, s1)
           | (Inr events, s1) \<Rightarrow>
               if events \<noteq> [] then (Inr busy_message, s1)
               else
                 (case input_line attendees_prompt s1 of
                    (Inl e, s2) \<Rightarrow> (Inl e, s2)
                  | (Inr attendees_input, s2) \<Rightarrow>
                      (case events_insert_execute w service
                              (meeting_event meeting_title start_time end_time
                                 (attendees_of attendees_input)) s2 of
                         (Some e, s3) \<Rightarrow> (Inl e, s3)
                       | (None, s3) \<Rightarrow>
                           run_sync w SchedulingAgent
                             (confirm_prompt meeting_title date_str duration_minutes
                                attendees_input) s3))))"

text \<open>
  Lines 135 to 140, the handler: an exception with a \<open>content\<close> attribute has its content
  decoded, which may raise again (\<open>Inl\<close>), this time out of \<open>schedule_meeting\<close>.
\<close>

definition schedule_except :: "world \<Rightarrow> exn \<Rightarrow> exn + string" where
  "schedule_except w e =
     (case exn_content e of
        Some content \<Rightarrow>
          (case error_details w content of
             Inl e' \<Rightarrow> Inl e'
           | Inr details \<Rightarrow>
               Inr (''Error scheduling meeting: '' @ exn_str w e @ '' - Details: '' @ details))
      | None \<Rightarrow> Inr (''Error scheduling meeting: '' @ exn_str w e))"

definition schedule_meeting ::
  "world \<Rightarrow> string \<Rightarrow> int \<Rightarrow> string \<Rightarrow> state \<Rightarrow> (exn + string) \<times> state" where
  "schedule_meeting w meeting_title duration_minutes date_str s =
     (case get_calendar_service w s of
        (Inl e, s1) \<Rightarrow> (Inl e, s1)
      | (Inr (ErrorMessage service), s1) \<Rightarrow> (Inr service, s1)
      | (Inr (Session service), s1) \<Rightarrow>
          (case schedule_try w service meeting_title duration_minutes date_str s1 of
             (Inr r, s2) \<Rightarrow> (Inr r, s2)
           | (Inl e, s2) \<Rightarrow> (schedule_except w e, s2)))"

section \<open>Menu loop\<close>

definition choice_prompt :: string where
  "choice_prompt = [CHR 0x0A] @ ''Enter your choice (1-4): ''"

definition result_header :: string where
  "result_header = [CHR 0x0A] @ ''Result:''"

definition invalid_choice :: string where
  "invalid_choice = ''Invalid choice. Please try again.''"

definition menu_lines :: "string list" where
  "menu_lines =
     [''1. Set a reminder'', ''2. Generate a meeting brief'', ''3. Schedule a meeting'',
      ''4. Exit'']"

text \<open>
  One pass through the body of \<open>while True\<close> (lines 150 to 169): the loop goes on, ends
  at \<open>break\<close>, or is left by an exception that nothing in \<open>run_demo\<close> catches.
\<close>

datatype step =
    Continue state
  | Exit state
  | Crash exn state

text \<open>The branches for the choices 1, 2 and 3, entered after the choice has been read.\<close>

definition reminder_choice :: "world \<Rightarrow> state \<Rightarrow> step" where
  "reminder_choice w s1 =
     (case input_line ''Enter task description (e.g., 'Call client tomorrow'): '' s1 of
        (Inl e, s2) \<Rightarrow> Crash e s2
      | (Inr task, s2) \<Rightarrow>
          (case create_reminder w task (print result_header s2) of
             (r, s3) \<Rightarrow> Continue (print r s3)))"

definition brief_choice :: "world \<Rightarrow> state \<Rightarrow> step" where
  "brief_choice w s1 =
     (case input_line
             ''Enter meeting notes (e.g., 'Discussed project timeline, need to finalize budget'): ''
             s1 of
        (Inl e, s2) \<Rightarrow> Crash e s2
      | (Inr notes, s2) \<Rightarrow>
          (case generate_meeting_brief w notes (print result_header s2) of
             (r, s3) \<Rightarrow> Continue (print r s3)))"

definition schedule_choice :: "world \<Rightarrow> state \<Rightarrow> step" where
  "schedule_choice w s1 =
     (case input_line ''Enter meeting title: '' s1 of
        (Inl e, s2) \<Rightarrow> Crash e s2
      | (Inr title, s2) \<Rightarrow>
          (case input_line ''Enter duration in minutes: '' s2 of
             (Inl e, s3) \<Rightarrow> Crash e s3
           | (Inr duration_text, s3) \<Rightarrow>
               (case py_int w duration_text of
                  Inl e \<Rightarrow> Crash e s3
                | Inr duration \<Rightarrow>
                    (case input_line ''Enter date (YYYY-MM-DD): '' s3 of
                       (Inl e, s4) \<Rightarrow> Crash e s4
                     | (Inr date_text, s4) \<Rightarrow>
                         (case schedule_meeting w title duration date_text
                                 (print result_header s4) of
                            (Inl e, s5) \<Rightarrow> Crash e s5
                          | (Inr r, s5) \<Rightarrow> Continue (print r s5))))))"

definition menu_step :: "world \<Rightarrow> state \<Rightarrow> step" where
  "menu_step w s =
     (case input_line choice_prompt s of
        (Inl e, s1) \<Rightarrow> Crash e s1
      | (Inr choice, s1) \<Rightarrow>
          if choice = ''1'' then reminder_choice w s1
          else if choice = ''2'' then brief_choice w s1
          else if choice = ''3'' then schedule_choice w s1
          else if choice = ''4'' then Exit (print ''Demo ended. Thank you!'' s1)
          else Continue (print invalid_choice s1))"

fun step_state :: "step \<Rightarrow> state" where
  "step_state (Continue s) = s"
| "step_state (Exit s) = s"
| "step_state (Crash e s) = s"

text \<open>
  The handlers never put lines back on the console input, and each pass reads the choice,
  so the loop ends on every finite input.
\<close>

lemma stdin_log: "stdin (log a s) = stdin s"
  by (simp add: log_def)

lemma stdin_print: "stdin (print t s) = stdin s"
  by (simp add: print_def stdin_log)

lemma stdin_run_sync: "stdin (snd (run_sync w ag p s)) = stdin s"
  by (simp add: run_sync_def stdin_log)

lemma stdin_cached_creds: "stdin (snd (cached_creds w s)) = stdin s"
  by (simp add: cached_creds_def os_path_exists_def from_authorized_user_file_def stdin_log
      split: sum.splits bool.splits)

lemma stdin_consent: "stdin (snd (consent w s)) = stdin s"
  by (simp add: consent_def run_local_server_def token_write_def stdin_log
      split: sum.splits option.splits)

lemma stdin_renew: "stdin (snd (renew w c s)) = stdin s"
proof -
  have "stdin (snd (case consent w s of
                      (Inl msg, s1) \<Rightarrow> (Inr (Inl msg), s1)
                    | (Inr c, s1) \<Rightarrow> (Inr (Inr (Some c)), s1))) = stdin s"
    using stdin_consent [of w s] by (cases "consent w s") (auto split: sum.splits)
  then show ?thesis
    by (auto simp add: renew_def creds_refresh_def stdin_log split: option.splits sum.splits)
qed

lemma stdin_get_calendar_service: "stdin (snd (get_calendar_service w s)) = stdin s"
proof -
  obtain r1 s1 where c: "cached_creds w s = (r1, s1)"
    by (cases "cached_creds w s")
  have s1: "stdin s1 = stdin s"
    using stdin_cached_creds [of w s] c by simp
  show ?thesis
  proof (cases r1)
    case (Inl e)
    then show ?thesis using c s1 by (simp add: get_calendar_service_def)
  next
    case (Inr cached)
    obtain r2 s2 where n: "renew w cached s1 = (r2, s2)"
      by (cases "renew w cached s1")
    have s2: "stdin s2 = stdin s"
      using stdin_renew [of w cached s1] n s1 by simp
    show ?thesis
      using c Inr n s2
      by (simp add: get_calendar_service_def build_def stdin_log
          split: sum.splits option.splits)
  qed
qed

lemma stdin_generate_meeting_brief: "stdin (snd (generate_meeting_brief w notes s)) = stdin s"
  using stdin_run_sync [of w TaskAgent "brief_prompt notes" s]
  by (cases "run_sync w TaskAgent (brief_prompt notes) s")
     (auto simp: generate_meeting_brief_def split: sum.splits)

lemma stdin_create_reminder: "stdin (snd (create_reminder w task s)) = stdin s"
proof -
  obtain r1 s1 where a: "run_sync w TaskAgent (reminder_prompt task) s = (r1, s1)"
    by (cases "run_sync w TaskAgent (reminder_prompt task) s")
  have s1: "stdin s1 = stdin s"
    using stdin_run_sync [of w TaskAgent "reminder_prompt task" s] a by simp
  obtain r2 s2 where g: "get_calendar_service w s1 = (r2, s2)"
    by (cases "get_calendar_service w s1")
  have s2: "stdin s2 = stdin s"
    using stdin_get_calendar_service [of w s1] g s1 by simp
  show ?thesis
    using a s1 g s2
    by (auto simp: create_reminder_def Let_def events_insert_execute_def stdin_log
        split: sum.splits auth_result.splits option.splits)
qed

lemma stdin_input_line: "length (stdin (snd (input_line p s))) \<le> length (stdin s)"
  by (simp add: input_line_def stdin_log split: list.splits)

lemma input_line_consumes:
  "input_line p s = (Inr l, s') \<Longrightarrow> length (stdin s') < length (stdin s)"
  by (auto simp: input_line_def stdin_log split: list.splits)

lemma stdin_schedule_try:
  "length (stdin (snd (schedule_try w svc t d ds s))) \<le> length (stdin s)"
proof (cases "meeting_window w ds d")
  case (Inl e)
  then show ?thesis by (simp add: schedule_try_def)
next
  case (Inr win)
  obtain st en where win: "win = (st, en)" by (cases win)
  obtain r2 s2 where i: "input_line attendees_prompt (log (ListEvents (conflict_query st en)) s) = (r2, s2)"
    by (cases "input_line attendees_prompt (log (ListEvents (conflict_query st en)) s)")
  have s2: "length (stdin s2) \<le> length (stdin s)"
    using stdin_input_line [of attendees_prompt "log (ListEvents (conflict_query st en)) s"] i
    by (simp add: stdin_log)
  show ?thesis
    using Inr win i s2
    by (auto simp: schedule_try_def events_list_execute_def events_insert_execute_def
        run_sync_def stdin_log split: sum.splits option.splits)
qed

lemma stdin_schedule_meeting:
  "length (stdin (snd (schedule_meeting w t d ds s))) \<le> length (stdin s)"
proof -
  obtain r1 s1 where g: "get_calendar_service w s = (r1, s1)"
    by (cases "get_calendar_service w s")
  have s1: "stdin s1 = stdin s"
    using stdin_get_calendar_service [of w s] g by simp
  show ?thesis
  proof (cases r1)
    case (Inl e)
    then show ?thesis using g s1 by (simp add: schedule_meeting_def)
  next
    case (Inr a)
    show ?thesis
    proof (cases a)
      case (ErrorMessage m)
      then show ?thesis using g Inr s1 by (simp add: schedule_meeting_def)
    next
      case (Session svc)
      obtain r2 s2 where t: "schedule_try w svc t d ds s1 = (r2, s2)"
        by (cases "schedule_try w svc t d ds s1")
      have "length (stdin s2) \<le> length (stdin s)"
        using stdin_schedule_try [of w svc t d ds s1] t s1 by simp
      then show ?thesis
        using g Inr Session t by (simp add: schedule_meeting_def split: sum.splits)
    qed
  qed
qed

lemma stdin_reminder_choice:
  "length (stdin (step_state (reminder_choice w s))) \<le> length (stdin s)"
proof -
  let ?p = "''Enter task description (e.g., 'Call client tomorrow'): ''"
  obtain r2 s2 where i: "input_line ?p s = (r2, s2)"
    by (cases "input_line ?p s")
  have s2: "length (stdin s2) \<le> length (stdin s)"
    using stdin_input_line [of ?p s] i by simp
  show ?thesis
  proof (cases r2)
    case (Inl e)
    then show ?thesis using i s2 by (simp add: reminder_choice_def)
  next
    case (Inr task)
    obtain r s3 where c: "create_reminder w task (print result_header s2) = (r, s3)"
      by (cases "create_reminder w task (print result_header s2)")
    have "stdin s3 = stdin s2"
      using stdin_create_reminder [of w task "print result_header s2"] c
      by (simp add: stdin_print)
    then show ?thesis using i Inr c s2 by (simp add: reminder_choice_def stdin_print)
  qed
qed

lemma stdin_brief_choice:
  "length (stdin (step_state (brief_choice w s))) \<le> length (stdin s)"
proof -
  let ?p = "''Enter meeting notes (e.g., 'Discussed project timeline, need to finalize budget'): ''"
  obtain r2 s2 where i: "input_line ?p s = (r2, s2)"
    by (cases "input_line ?p s")
  have s2: "length (stdin s2) \<le> length (stdin s)"
    using stdin_input_line [of ?p s] i by simp
  show ?thesis
  proof (cases r2)
    case (Inl e)
    then show ?thesis using i s2 by (simp add: brief_choice_def)
  next
    case (Inr nts)
    obtain r s3 where c: "generate_meeting_brief w nts (print result_header s2) = (r, s3)"
      by (cases "generate_meeting_brief w nts (print result_header s2)")
    have "stdin s3 = stdin s2"
      using stdin_generate_meeting_brief [of w nts "print result_header s2"] c
      by (simp add: stdin_print)
    then show ?thesis using i Inr c s2 by (simp add: brief_choice_def stdin_print)
  qed
qed

lemma stdin_schedule_choice:
  "length (stdin (step_state (schedule_choice w s))) \<le> length (stdin s)"
proof -
  obtain r2 s2 where i2: "input_line ''Enter meeting title: '' s = (r2, s2)"
    by (cases "input_line ''Enter meeting title: '' s")
  have s2: "length (stdin s2) \<le> length (stdin s)"
    using stdin_input_line [of "''Enter meeting title: ''" s] i2 by simp
  obtain r3 s3 where i3: "input_line ''Enter duration in minutes: '' s2 = (r3, s3)"
    by (cases "input_line ''Enter duration in minutes: '' s2")
  have s3: "length (stdin s3) \<le> length (stdin s)"
    using stdin_input_line [of "''Enter duration in minutes: ''" s2] i3 s2 by simp
  obtain r4 s4 where i4: "input_line ''Enter date (YYYY-MM-DD): '' s3 = (r4, s4)"
    by (cases "input_line ''Enter date (YYYY-MM-DD): '' s3")
  have s4: "length (stdin s4) \<le> length (stdin s)"
    using stdin_input_line [of "''Enter date (YYYY-MM-DD): ''" s3] i4 s3 by simp
  have s5: "length (stdin y) \<le> length (stdin s)"
    if "schedule_meeting w t d ds (print result_header s4) = (r, y)" for t d ds r y
    using stdin_schedule_meeting [of w t d ds "print result_header s4"] s4 that
    by (simp add: stdin_print)
  show ?thesis
    using i2 i3 i4 s2 s3 s4
    by (auto simp: schedule_choice_def stdin_print split: sum.splits prod.splits dest: s5)
qed

lemma menu_step_consumes:
  assumes "menu_step w s = Continue s'"
  shows "length (stdin s') < length (stdin s)"
proof -
  obtain r1 s1 where c: "input_line choice_prompt s = (r1, s1)"
    by (cases "input_line choice_prompt s")
  from assms c obtain choice where r1: "r1 = Inr choice"
    by (cases r1) (auto simp: menu_step_def)
  have s1: "length (stdin s1) < length (stdin s)"
    using input_line_consumes c r1 by simp
  have "step_state (menu_step w s) = s'"
    using assms by simp
  moreover have "length (stdin (step_state (menu_step w s))) \<le> length (stdin s1)"
    using c r1 stdin_reminder_choice [of w s1] stdin_brief_choice [of w s1]
      stdin_schedule_choice [of w s1]
    by (simp add: menu_step_def stdin_print)
  ultimately show ?thesis using s1 by simp
qed

function menu_loop :: "world \<Rightarrow> state \<Rightarrow> (exn + unit) \<times> state" where
  "menu_loop w s =
     (case menu_step w s of
        Continue s' \<Rightarrow> menu_loop w s'
      | Exit s' \<Rightarrow> (Inr (), s')
      | Crash e s' \<Rightarrow> (Inl e, s'))"
  by pat_completeness auto
termination
  by (relation "measure (\<lambda>(w, s). length (stdin s))") (auto dest: menu_step_consumes)

declare menu_loop.simps [simp del]

definition run_demo :: "world \<Rightarrow> state \<Rightarrow> (exn + unit) \<times> state" where
  "run_demo w s =
     menu_loop w
       (print ''4. Exit''
         (print ''3. Schedule a meeting''
           (print ''2. Generate a meeting brief''
             (print ''1. Set a reminder''
               (print ''=== AI-Powered Life Assistant Demo ==='' s)))))"

section \<open>A deterministic environment for concrete runs\<close>

text \<open>
  \<open>stub_world\<close> answers every call successfully: the agent echoes its prompt, the cached
  token is valid, the calendar is empty and accepts every event. The concrete runs below
  change one answer at a time.
\<close>

definition good_creds :: creds where
  "good_creds = \<lparr>valid = True, expired = False, refresh_token = Some ''refresh''\<rparr>"

definition stub_world :: world where
  "stub_world =
     \<lparr>lib_message = (\<lambda>l. ''library error''),
      agent_reply = (\<lambda>h ag p. Inr (''Noted. '' @ p)),
      token_exists = (\<lambda>h. True),
      load_token = (\<lambda>h. Inr good_creds),
      refresh_creds = (\<lambda>h c. Inr good_creds),
      consent_flow = (\<lambda>h. Inr good_creds),
      write_token = (\<lambda>h c. None),
      build_service = (\<lambda>h c. Inr (Service c)),
      today = (\<lambda>h. \<lparr>year = 2025, month = 3, day = 10\<rparr>),
      utcoffset = (\<lambda>d. - 240),
      events_list = (\<lambda>h svc q. Inr []),
      events_insert = (\<lambda>h svc ev. None),
      error_details = (\<lambda>c. Inr c),
      int_max_str_digits = 4300\<rparr>"

definition start_state :: "string list \<Rightarrow> state" where
  "start_state lines = \<lparr>stdin = lines, trace = []\<rparr>"

definition handoff_world :: world where
  "handoff_world =
     stub_world\<lparr>agent_reply := (\<lambda>h ag p. Inr ''That needs a calendar. Handoff to SchedulingAgent'')\<rparr>"

section \<open>Reading the trace\<close>

text \<open>
  \<open>extends_by P s s'\<close>: the trace of \<open>s'\<close> is the trace of \<open>s\<close> followed by actions that all
  satisfy \<open>P\<close>.
\<close>

fun is_auth_action :: "action \<Rightarrow> bool" where
  "is_auth_action TokenExists = True"
| "is_auth_action LoadToken = True"
| "is_auth_action Refresh = True"
| "is_auth_action ConsentFlow = True"
| "is_auth_action WriteToken = True"
| "is_auth_action Build = True"
| "is_auth_action a = False"

fun is_insert :: "action \<Rightarrow> bool" where
  "is_insert (InsertEvent c ev) = True"
| "is_insert a = False"

definition extends_by :: "(action \<Rightarrow> bool) \<Rightarrow> state \<Rightarrow> state \<Rightarrow> bool" where
  "extends_by P s s' = (\<exists>acts. trace s' = trace s @ acts \<and> list_all P acts)"

definition no_credentials_world :: world where
  "no_credentials_world =
     stub_world\<lparr>token_exists := (\<lambda>h. False),
                consent_flow := (\<lambda>h. Inl (Ext ''credentials.json not found'' None))\<rparr>"

definition expired_token_world :: world where
  "expired_token_world =
     stub_world\<lparr>load_token :=
                  (\<lambda>h. Inr \<lparr>valid = False, expired = True, refresh_token = Some ''refresh''\<rparr>),
                refresh_creds := (\<lambda>h c. Inl (Ext ''invalid_grant: Token has been expired or revoked.'' None))\<rparr>"

definition busy_world :: world where
  "busy_world = stub_world\<lparr>events_list := (\<lambda>h svc q. Inr [''Standup''])\<rparr>"

fun is_input :: "action \<Rightarrow> bool" where
  "is_input (Input p l) = True"
| "is_input a = False"

text \<open>
  \<open>reprints_menu choice tr\<close> reads the trace as the specification's sentence on invalid
  choices has it: after the line \<open>choice\<close> has been read at the choice prompt, each
  of the four menu lines is printed before the next prompt.
\<close>

definition reprints_menu :: "string \<Rightarrow> action list \<Rightarrow> bool" where
  "reprints_menu choice tr =
     (let after = takeWhile (\<lambda>a. \<not> is_input a)
                    (drop 1 (dropWhile (\<lambda>a. a \<noteq> Input choice_prompt (Some choice)) tr))
      in list_all (\<lambda>l. Print l \<in> set after) menu_lines)"

abbreviation anything :: "action \<Rightarrow> bool" where
  "anything \<equiv> (\<lambda>a. True)"

definition insert_fails_world :: world where
  "insert_fails_world =
     stub_world\<lparr>events_insert := (\<lambda>h svc ev. Some (Ext ''quotaExceeded'' None))\<rparr>"

section \<open>Properties\<close>

subsection \<open>Meeting briefs\<close>

lemma rejection_has_no_sentinel: "\<not> contains handoff_sentinel brief_rejection"
  by code_simp

text \<open>
  C5. When the TaskAgent's output for a meeting-brief request contains the handoff
  sentinel, \<open>generate_meeting_brief\<close> returns exactly the fixed rejection message, which
  is never the sentinel-bearing output itself; otherwise it returns the agent's text
  verbatim.
\<close>

theorem generate_meeting_brief_handoff:
  assumes "agent_reply w (trace s) TaskAgent (brief_prompt meeting_notes) = Inr final_output"
  shows "fst (generate_meeting_brief w meeting_notes s) =
           (if contains handoff_sentinel final_output then brief_rejection else final_output)
         \<and> (contains handoff_sentinel final_output \<longrightarrow>
              fst (generate_meeting_brief w meeting_notes s) \<noteq> final_output)"
proof -
  have r: "fst (generate_meeting_brief w meeting_notes s) =
             (if contains handoff_sentinel final_output then brief_rejection else final_output)"
    using assms by (simp add: generate_meeting_brief_def run_sync_def)
  moreover have "fst (generate_meeting_brief w meeting_notes s) \<noteq> final_output"
    if "contains handoff_sentinel final_output"
    using that r rejection_has_no_sentinel by auto
  ultimately show ?thesis by blast
qed

theorem generate_meeting_brief_handoff_witness:
  "agent_reply handoff_world (trace (start_state [])) TaskAgent (brief_prompt ''budget'')
     = Inr ''That needs a calendar. Handoff to SchedulingAgent''
   \<and> fst (generate_meeting_brief handoff_world ''budget'' (start_state [])) = brief_rejection
   \<and> agent_reply stub_world (trace (start_state [])) TaskAgent (brief_prompt ''budget'')
     = Inr (''Noted. '' @ brief_prompt ''budget'')
   \<and> fst (generate_meeting_brief stub_world ''budget'' (start_state []))
     = ''Noted. '' @ brief_prompt ''budget''"
proof -
  have h1: "agent_reply handoff_world (trace (start_state [])) TaskAgent (brief_prompt ''budget'')
     = Inr ''That needs a calendar. Handoff to SchedulingAgent''"
    by (simp add: handoff_world_def stub_world_def)
  have c1: "contains handoff_sentinel ''That needs a calendar. Handoff to SchedulingAgent''"
    by code_simp
  have h2: "agent_reply stub_world (trace (start_state [])) TaskAgent (brief_prompt ''budget'')
     = Inr (''Noted. '' @ brief_prompt ''budget'')"
    by (simp add: stub_world_def)
  have c2: "\<not> contains handoff_sentinel (''Noted. '' @ brief_prompt ''budget'')"
    by code_simp
  show ?thesis
    using h1 h2 c1 c2 generate_meeting_brief_handoff [OF h1] generate_meeting_brief_handoff [OF h2]
    by simp
qed

subsection \<open>What the handlers add to the trace\<close>

lemma extends_refl: "extends_by P s s"
  by (simp add: extends_by_def)

lemma extends_trans: "extends_by P s s1 \<Longrightarrow> extends_by P s1 s2 \<Longrightarrow> extends_by P s s2"
  by (auto simp: extends_by_def)

lemma extends_log: "P a \<Longrightarrow> extends_by P s (log a s)"
  by (simp add: extends_by_def log_def)

lemma extends_log_trans: "extends_by P s s1 \<Longrightarrow> P a \<Longrightarrow> extends_by P s (log a s1)"
  by (auto simp: extends_by_def log_def)

lemma extends_stdin: "extends_by P s s1 \<Longrightarrow> extends_by P s (s1\<lparr>stdin := l\<rparr>)"
  by (simp add: extends_by_def)

lemma cached_creds_trace: "extends_by is_auth_action s (snd (cached_creds w s))"
  by (auto simp: cached_creds_def os_path_exists_def from_authorized_user_file_def
      split: sum.splits bool.splits intro!: extends_log_trans extends_log)

lemma consent_trace: "extends_by is_auth_action s (snd (consent w s))"
  by (auto simp: consent_def run_local_server_def token_write_def
      split: sum.splits option.splits intro!: extends_log_trans extends_log)

lemma renew_trace: "extends_by is_auth_action s (snd (renew w cached s))"
proof -
  have k: "snd (case consent w s of
                  (Inl msg, s1) \<Rightarrow> (Inr (Inl msg) :: exn + string + creds option, s1)
                | (Inr c, s1) \<Rightarrow> (Inr (Inr (Some c)), s1)) = snd (consent w s)"
    by (cases "consent w s") (auto split: sum.splits)
  show ?thesis
  proof (cases cached)
    case None
    then show ?thesis using k consent_trace [of s w] by (simp add: renew_def)
  next
    case (Some c0)
    show ?thesis
    proof (cases "valid c0")
      case True
      then show ?thesis using Some by (simp add: renew_def extends_refl)
    next
      case False
      show ?thesis
      proof (cases "expired c0 \<and> truthy (refresh_token c0)")
        case True
        then show ?thesis using Some False
          by (auto simp: renew_def creds_refresh_def split: sum.splits intro!: extends_log)
      next
        case False
        then have "snd (renew w cached s) = snd (consent w s)"
          using Some \<open>\<not> valid c0\<close> k by (auto simp: renew_def)
        then show ?thesis using consent_trace [of s w] by simp
      qed
    qed
  qed
qed

lemma get_calendar_service_trace:
  "extends_by is_auth_action s (snd (get_calendar_service w s))"
proof -
  obtain r1 s1 where c: "cached_creds w s = (r1, s1)"
    by (cases "cached_creds w s")
  have a1: "extends_by is_auth_action s s1"
    using cached_creds_trace [of s w] c by simp
  show ?thesis
  proof (cases r1)
    case (Inl e)
    then show ?thesis using c a1 by (simp add: get_calendar_service_def)
  next
    case (Inr cached)
    obtain r2 s2 where n: "renew w cached s1 = (r2, s2)"
      by (cases "renew w cached s1")
    have a2: "extends_by is_auth_action s s2"
      using renew_trace [of s1 w cached] n a1 by (auto intro: extends_trans)
    show ?thesis
      using c Inr n a2
      by (auto simp: get_calendar_service_def build_def
          split: sum.splits option.splits intro!: extends_log_trans)
  qed
qed


lemma schedule_try_trace:
  "extends_by (\<lambda>a. True) s (snd (schedule_try w svc t d ds s))"
  by (auto simp: schedule_try_def events_list_execute_def input_line_def
      events_insert_execute_def run_sync_def
      split: sum.splits prod.splits list.splits option.splits
      intro!: extends_log_trans extends_log extends_refl extends_stdin)

subsection \<open>Authentication\<close>

text \<open>
  C7. \<open>schedule_meeting\<close> authenticates before anything else: its trace starts with the
  trace of \<open>get_calendar_service\<close>, which holds authentication steps only and reads no
  input. When authentication yields an error string, \<open>schedule_meeting\<close> returns that
  string in the state authentication left: whatever the date string is, it is not
  parsed, no conflict query is made and no event is inserted.
\<close>

theorem schedule_meeting_authenticates_first:
  "(\<exists>rest. trace (snd (schedule_meeting w meeting_title duration_minutes date_str s))
             = trace (snd (get_calendar_service w s)) @ rest)
   \<and> extends_by is_auth_action s (snd (get_calendar_service w s))
   \<and> stdin (snd (get_calendar_service w s)) = stdin s
   \<and> (\<forall>msg. fst (get_calendar_service w s) = Inr (ErrorMessage msg) \<longrightarrow>
          schedule_meeting w meeting_title duration_minutes date_str s
            = (Inr msg, snd (get_calendar_service w s)))"
proof -
  obtain r1 s1 where g: "get_calendar_service w s = (r1, s1)"
    by (cases "get_calendar_service w s")
  have "\<exists>rest. trace (snd (schedule_meeting w meeting_title duration_minutes date_str s))
             = trace s1 @ rest"
  proof (cases r1)
    case (Inl e)
    then show ?thesis using g by (simp add: schedule_meeting_def)
  next
    case (Inr a)
    show ?thesis
    proof (cases a)
      case (ErrorMessage m)
      then show ?thesis using g Inr by (simp add: schedule_meeting_def)
    next
      case (Session svc)
      have "snd (schedule_meeting w meeting_title duration_minutes date_str s)
              = snd (schedule_try w svc meeting_title duration_minutes date_str s1)"
        using g Inr Session by (auto simp: schedule_meeting_def split: prod.splits sum.splits)
      then show ?thesis
        using schedule_try_trace [of s1 w svc meeting_title duration_minutes date_str]
        by (auto simp: extends_by_def)
    qed
  qed
  moreover have "schedule_meeting w meeting_title duration_minutes date_str s = (Inr msg, s1)"
    if "r1 = Inr (ErrorMessage msg)" for msg
    using that g by (simp add: schedule_meeting_def)
  ultimately show ?thesis
    using g get_calendar_service_trace [of s w] stdin_get_calendar_service [of w s] by simp
qed

lemma no_credentials_auth:
  "get_calendar_service no_credentials_world (start_state [''a@x.com''])
     = (Inr (ErrorMessage (authorizing_error no_credentials_world (Ext ''credentials.json not found'' None))),
        \<lparr>stdin = [''a@x.com''], trace = [TokenExists, ConsentFlow]\<rparr>)"
  by code_simp

theorem schedule_meeting_authenticates_first_witness:
  "fst (get_calendar_service no_credentials_world (start_state [''a@x.com'']))
     = Inr (ErrorMessage (''Error authorizing Google Calendar: credentials.json not found''
              @ ''. Pre-authenticate by running option 3 once and approving the OAuth prompt.''))
   \<and> schedule_meeting no_credentials_world ''Sync'' 30 ''not a date'' (start_state [''a@x.com''])
     = (Inr (''Error authorizing Google Calendar: credentials.json not found''
              @ ''. Pre-authenticate by running option 3 once and approving the OAuth prompt.''),
        \<lparr>stdin = [''a@x.com''], trace = [TokenExists, ConsentFlow]\<rparr>)"
proof -
  have m: "authorizing_error no_credentials_world (Ext ''credentials.json not found'' None)
             = ''Error authorizing Google Calendar: credentials.json not found''
                 @ ''. Pre-authenticate by running option 3 once and approving the OAuth prompt.''"
    by (simp add: authorizing_error_def)
  have h: "fst (get_calendar_service no_credentials_world (start_state [''a@x.com'']))
     = Inr (ErrorMessage (''Error authorizing Google Calendar: credentials.json not found''
              @ ''. Pre-authenticate by running option 3 once and approving the OAuth prompt.''))"
    using no_credentials_auth m by simp
  show ?thesis
    using h no_credentials_auth
      schedule_meeting_authenticates_first [of no_credentials_world "''Sync''" 30 "''not a date''"
        "start_state [''a@x.com'']"]
    by simp
qed

text \<open>
  C3. \<open>get_calendar_service\<close> is claimed never to raise, also when the cached token is
  expired and the silent refresh fails. The refresh at line 34 is outside the \<open>try\<close>
  block that guards the consent flow: with an expired token whose refresh raises, the
  exception leaves \<open>get_calendar_service\<close>, then \<open>schedule_meeting\<close> (which calls it
  outside its own \<open>try\<close>), then \<open>run_demo\<close>.
\<close>

theorem get_calendar_service_raises_on_failed_refresh:
  "get_calendar_service expired_token_world (start_state [])
     = (Inl (Ext ''invalid_grant: Token has been expired or revoked.'' None),
        \<lparr>stdin = [], trace = [TokenExists, LoadToken, Refresh]\<rparr>)
   \<and> fst (schedule_meeting expired_token_world ''Sync'' 30 ''2025-03-10'' (start_state []))
     = Inl (Ext ''invalid_grant: Token has been expired or revoked.'' None)
   \<and> fst (run_demo expired_token_world (start_state [''3'', ''Sync'', ''30'', ''2025-03-10'', ''4'']))
     = Inl (Ext ''invalid_grant: Token has been expired or revoked.'' None)"
  by code_simp

subsection \<open>Scheduling\<close>

lemma extends_mono:
  "extends_by P s s' \<Longrightarrow> (\<And>a. P a \<Longrightarrow> Q a) \<Longrightarrow> extends_by Q s s'"
  by (auto simp: extends_by_def list_all_iff)

lemma localize_9am_Inr: "localize_9am w d = Inr st \<Longrightarrow> st = nine_am w d"
  by (simp add: localize_9am_def Let_def split: if_splits)

lemma meeting_window_eq:
  "strptime date_str = Inr d \<Longrightarrow> localize_9am w d = Inr st \<Longrightarrow>
   add_minutes st n = Inr en \<Longrightarrow> meeting_window w date_str n = Inr (st, en)"
  by (simp add: meeting_window_def)

lemma schedule_try_busy:
  assumes "meeting_window w date_str n = Inr (st, en)"
    and "events_list w (trace s1) svc (conflict_query st en) = Inr events"
    and "events \<noteq> []"
  shows "schedule_try w svc title n date_str s1
           = (Inr busy_message, log (ListEvents (conflict_query st en)) s1)"
  using assms by (simp add: schedule_try_def events_list_execute_def)

lemma schedule_try_free:
  assumes "meeting_window w date_str n = Inr (st, en)"
    and "events_list w (trace s1) svc (conflict_query st en) = Inr []"
    and "stdin s1 = line # rest"
  shows "schedule_try w svc title n date_str s1
           = (let s2 = \<lparr>stdin = rest,
                         trace = trace s1 @ [ListEvents (conflict_query st en),
                                             Input attendees_prompt (Some line)]\<rparr>;
                  ev = meeting_event title st en (attendees_of line);
                  s3 = log (InsertEvent ''primary'' ev) s2
              in case events_insert w (trace s2) svc ev of
                   Some e \<Rightarrow> (Inl e, s3)
                 | None \<Rightarrow> run_sync w SchedulingAgent (confirm_prompt title date_str n line) s3)"
proof -
  have i: "input_line attendees_prompt (log (ListEvents (conflict_query st en)) s1)
             = (Inr line, \<lparr>stdin = rest,
                         trace = trace s1 @ [ListEvents (conflict_query st en),
                                             Input attendees_prompt (Some line)]\<rparr>)"
    using assms(3) by (simp add: input_line_def log_def)
  show ?thesis
    using assms(1,2) i
    by (simp add: schedule_try_def events_list_execute_def events_insert_execute_def Let_def
        split: option.splits)
qed

text \<open>
  C2. When authentication succeeds, the date is well formed and can be localized (it is
  not the first or last day of the calendar), the end of the window can be computed, and
  the conflict query over the window from 09:00 to 09:00 plus the duration returns at
  least one event, \<open>schedule_meeting\<close> returns exactly the busy message, and nothing it
  has added to the trace is an insert-event call: after authentication the conflict
  query is its only action.
\<close>

theorem schedule_meeting_busy:
  assumes "get_calendar_service w s = (Inr (Session service), s1)"
    and "strptime date_str = Inr d"
    and "localize_9am w d = Inr start_time"
    and "add_minutes start_time duration_minutes = Inr end_time"
    and "events_list w (trace s1) service (conflict_query start_time end_time) = Inr events"
    and "events \<noteq> []"
  shows "fst (schedule_meeting w meeting_title duration_minutes date_str s)
           = Inr ''Time slot is busy. Please choose another date.''
         \<and> extends_by (\<lambda>a. \<not> is_insert a) s
             (snd (schedule_meeting w meeting_title duration_minutes date_str s))
         \<and> trace (snd (schedule_meeting w meeting_title duration_minutes date_str s))
             = trace s1 @ [ListEvents (conflict_query start_time end_time)]
         \<and> start_time = \<lparr>dt_date = d, hour = 9, minute = 0, second = 0, microsecond = 0,
                          offset = utcoffset w d\<rparr>"
proof -
  have t: "schedule_try w service meeting_title duration_minutes date_str s1
             = (Inr busy_message, log (ListEvents (conflict_query start_time end_time)) s1)"
    using schedule_try_busy [OF meeting_window_eq [OF assms(2,3,4)] assms(5,6)] .
  have r: "schedule_meeting w meeting_title duration_minutes date_str s
             = (Inr busy_message, log (ListEvents (conflict_query start_time end_time)) s1)"
    using assms(1) t by (simp add: schedule_meeting_def)
  have "extends_by is_auth_action s s1"
    using get_calendar_service_trace [of s w] assms(1) by simp
  then have "extends_by (\<lambda>a. \<not> is_insert a) s s1"
    by (rule extends_mono) (auto elim: is_auth_action.elims)
  then have "extends_by (\<lambda>a. \<not> is_insert a) s
               (log (ListEvents (conflict_query start_time end_time)) s1)"
    by (rule extends_log_trans) simp
  moreover have "start_time = \<lparr>dt_date = d, hour = 9, minute = 0, second = 0, microsecond = 0,
                             offset = utcoffset w d\<rparr>"
    using localize_9am_Inr [OF assms(3)] by (simp add: nine_am_def)
  ultimately show ?thesis using r by (simp add: busy_message_def log_def)
qed

theorem schedule_meeting_busy_witness:
  "get_calendar_service busy_world (start_state [''a@x.com''])
     = (Inr (Session (Service good_creds)),
        \<lparr>stdin = [''a@x.com''], trace = [TokenExists, LoadToken, Build]\<rparr>)
   \<and> strptime ''2025-03-10'' = Inr \<lparr>year = 2025, month = 3, day = 10\<rparr>
   \<and> localize_9am busy_world \<lparr>year = 2025, month = 3, day = 10\<rparr>
     = Inr \<lparr>dt_date = \<lparr>year = 2025, month = 3, day = 10\<rparr>, hour = 9, minute = 0,
            second = 0, microsecond = 0, offset = - 240\<rparr>
   \<and> add_minutes
       \<lparr>dt_date = \<lparr>year = 2025, month = 3, day = 10\<rparr>, hour = 9, minute = 0,
            second = 0, microsecond = 0, offset = - 240\<rparr> 30
     = Inr \<lparr>dt_date = \<lparr>year = 2025, month = 3, day = 10\<rparr>, hour = 9, minute = 30,
            second = 0, microsecond = 0, offset = - 240\<rparr>
   \<and> schedule_meeting busy_world ''Sync'' 30 ''2025-03-10'' (start_state [''a@x.com''])
     = (Inr ''Time slot is busy. Please choose another date.'',
        \<lparr>stdin = [''a@x.com''],
         trace = [TokenExists, LoadToken, Build,
                  ListEvents \<lparr>calendarId = ''primary'', timeMin = ''2025-03-10T09:00:00-04:00'',
                              timeMax = ''2025-03-10T09:30:00-04:00'',
                              timeZone = ''America/New_York'', singleEvents = True,
                              orderBy = ''startTime''\<rparr>]\<rparr>)"
proof -
  let ?s = "start_state [''a@x.com'']"
  let ?s1 = "\<lparr>stdin = [''a@x.com''], trace = [TokenExists, LoadToken, Build]\<rparr>"
  let ?d = "\<lparr>year = 2025, month = 3, day = 10\<rparr>"
  let ?en = "\<lparr>dt_date = ?d, hour = 9, minute = 30, second = 0, microsecond = 0, offset = - 240\<rparr>"
  have g: "get_calendar_service busy_world ?s = (Inr (Session (Service good_creds)), ?s1)"
    by code_simp
  have p: "strptime ''2025-03-10'' = Inr ?d"
    by code_simp
  have z: "localize_9am busy_world ?d = Inr (nine_am busy_world ?d)"
    by code_simp
  have a: "add_minutes (nine_am busy_world ?d) 30 = Inr ?en"
    by code_simp
  have l: "events_list busy_world (trace ?s1) (Service good_creds)
             (conflict_query (nine_am busy_world ?d) ?en) = Inr [''Standup'']"
    by (simp add: busy_world_def)
  have ne: "[''Standup''] \<noteq> []" by simp
  have zv: "localize_9am busy_world ?d
     = Inr \<lparr>dt_date = \<lparr>year = 2025, month = 3, day = 10\<rparr>, hour = 9, minute = 0,
            second = 0, microsecond = 0, offset = - 240\<rparr>"
    by code_simp
  have av: "add_minutes
       \<lparr>dt_date = \<lparr>year = 2025, month = 3, day = 10\<rparr>, hour = 9, minute = 0,
            second = 0, microsecond = 0, offset = - 240\<rparr> 30
     = Inr ?en"
    by code_simp
  have q: "conflict_query (nine_am busy_world ?d) ?en
             = \<lparr>calendarId = ''primary'', timeMin = ''2025-03-10T09:00:00-04:00'',
                 timeMax = ''2025-03-10T09:30:00-04:00'',
                 timeZone = ''America/New_York'', singleEvents = True,
                 orderBy = ''startTime''\<rparr>"
    by code_simp
  have st: "stdin (snd (schedule_meeting busy_world ''Sync'' 30 ''2025-03-10'' ?s)) = [''a@x.com'']"
    by code_simp
  show ?thesis
    using g p zv av q st schedule_meeting_busy [OF g p z a l ne, of "''Sync''"]
    by (cases "schedule_meeting busy_world ''Sync'' 30 ''2025-03-10'' ?s") auto
qed


text \<open>
  The end of the window. \<open>add_minutes\<close> at 09:00 works on whole minutes: the end is at
  minute \<open>540 + n\<close> counted from the midnight that starts the parsed date.
\<close>

lemma div_60: "(60 * a) div (60 * b) = a div (b::int)"
  by simp

lemma mod_60: "(60 * a) mod (60 * b) = 60 * (a mod (b::int))"
  by simp

lemma seconds_div_day: "(n * 60) div 86400 = n div (1440::int)"
  using div_60 [of n 1440] by (simp add: mult.commute)

lemma seconds_mod_day: "(n * 60) mod 86400 = 60 * (n mod (1440::int))"
  using mod_60 [of n 1440] by (simp add: mult.commute)

lemma sixty_div_day: "(60 * t) div 86400 = t div (1440::int)"
  using div_60 [of t 1440] by simp

lemma sixty_mod_day: "(60 * t) mod 86400 = 60 * (t mod (1440::int))"
  using mod_60 [of t 1440] by simp

lemma sixty_div_hour: "(60 * m) div 3600 = m div (60::int)"
  using div_60 [of m 60] by simp

lemma sixty_mod_hour: "(60 * m) mod 3600 = 60 * (m mod (60::int))"
  using mod_60 [of m 60] by simp


lemma add_minutes_9am_unfold:
  "add_minutes (nine_am w d) n =
     (let t = 540 + n mod 1440;
          k = ymd2ord d + n div 1440 + t div 1440;
          m = t mod 1440
      in if 999999999 < \<bar>n div 1440\<bar> \<or> 999999999 < \<bar>k\<bar> then Inl (Lib DateOverflow)
         else if 0 < k \<and> k \<le> max_ordinal
         then Inr \<lparr>dt_date = ord2ymd k, hour = m div 60, minute = m mod 60, second = 0,
                   microsecond = 0, offset = utcoffset w d\<rparr>
         else Inl (Lib DateOverflow))"
proof -
  have total: "9 * 3600 + 0 * 60 + 0 + 60 * (n mod 1440) = 60 * (540 + n mod 1440)"
    by simp
  show ?thesis
    unfolding add_minutes_def nine_am_def Let_def datetime.simps
      seconds_div_day seconds_mod_day total sixty_div_day sixty_mod_day sixty_div_hour
      sixty_mod_hour
    by simp
qed


lemma add_minutes_9am:
  assumes "add_minutes (nine_am w d) n = Inr en"
  shows "\<exists>k. dt_date en = ord2ymd k \<and> 0 < k \<and> k \<le> max_ordinal
           \<and> k * 1440 + hour en * 60 + minute en = ymd2ord d * 1440 + 9 * 60 + n
           \<and> 0 \<le> hour en \<and> hour en < 24 \<and> 0 \<le> minute en \<and> minute en < 60
           \<and> second en = 0 \<and> microsecond en = 0 \<and> offset en = utcoffset w d"
proof -
  define t where "t = 540 + n mod 1440"
  define k where "k = ymd2ord d + n div 1440 + t div 1440"
  define m where "m = t mod 1440"
  have u: "add_minutes (nine_am w d) n =
     (if 999999999 < \<bar>n div 1440\<bar> \<or> 999999999 < \<bar>k\<bar> then Inl (Lib DateOverflow)
      else if 0 < k \<and> k \<le> max_ordinal
      then Inr \<lparr>dt_date = ord2ymd k, hour = m div 60, minute = m mod 60, second = 0,
                microsecond = 0, offset = utcoffset w d\<rparr>
      else Inl (Lib DateOverflow))"
    unfolding add_minutes_9am_unfold Let_def t_def k_def m_def ..
  have range: "0 < k \<and> k \<le> max_ordinal"
    using assms unfolding u by (simp split: if_splits)
  have en: "en = \<lparr>dt_date = ord2ymd k, hour = m div 60, minute = m mod 60, second = 0,
                  microsecond = 0, offset = utcoffset w d\<rparr>"
    using assms unfolding u by (simp split: if_splits)
  have m: "0 \<le> m" "m < 1440" by (simp_all add: m_def)
  have t: "t div 1440 * 1440 + m = t" by (simp add: m_def)
  have n: "n div 1440 * 1440 + n mod 1440 = n" by simp
  have "k * 1440 + m = ymd2ord d * 1440 + n div 1440 * 1440 + (t div 1440 * 1440 + m)"
    unfolding k_def by (simp only: distrib_right add.assoc)
  also have "\<dots> = ymd2ord d * 1440 + n div 1440 * 1440 + (540 + n mod 1440)"
    unfolding t by (simp only: t_def)
  also have "\<dots> = ymd2ord d * 1440 + 9 * 60 + n"
    using n by linarith
  finally have sum: "k * 1440 + m = ymd2ord d * 1440 + 9 * 60 + n" .
  have hm: "m div 60 * 60 + m mod 60 = m" by simp
  have hb: "0 \<le> m div 60" "m div 60 < 24" using m by simp_all
  have mb: "0 \<le> m mod 60" "m mod 60 < 60" by simp_all
  have "k * 1440 + hour en * 60 + minute en = ymd2ord d * 1440 + 9 * 60 + n"
    using sum hm by (simp add: en)
  then show ?thesis
    using range hb mb by (intro exI [of _ k]) (simp add: en)
qed

text \<open>
  The attendee input: a string that strips to nothing holds no comma, so the guard at
  line 122 changes nothing; and the joined entries name an address as soon as one entry
  is kept.
\<close>

lemma split_on_no_sep: "sep \<notin> set s \<Longrightarrow> split_on sep s = [s]"
  by (induction s) auto

lemma strip_empty_all_space:
  assumes "py_strip s = []"
  shows "\<forall>c \<in> set s. is_space c"
proof -
  have all: "\<forall>c \<in> set (dropWhile is_space s). is_space c"
    using assms by (simp add: py_strip_def dropWhile_eq_Nil_conv)
  have "dropWhile is_space s = []"
  proof (cases "dropWhile is_space s")
    case Nil
    then show ?thesis .
  next
    case (Cons c cs)
    then have "\<not> is_space c" using hd_dropWhile [of is_space s] by simp
    moreover have "is_space c" using all Cons by simp
    ultimately show ?thesis by simp
  qed
  then show ?thesis by (simp add: dropWhile_eq_Nil_conv)
qed

lemma comma_not_space: "\<not> is_space CHR '',''"
  by (simp add: is_space_def)

lemma attendees_of_filter:
  "attendees_of attendees_input =
     filter (\<lambda>email. email \<noteq> [] \<and> CHR ''@'' \<in> set email)
       (map py_strip (split_on CHR '','' attendees_input))"
proof (cases "py_strip attendees_input = []")
  case False
  then show ?thesis by (simp add: attendees_of_def attendee_emails_def)
next
  case True
  then have "CHR '','' \<notin> set attendees_input"
    using strip_empty_all_space comma_not_space by blast
  then have "split_on CHR '','' attendees_input = [attendees_input]"
    by (rule split_on_no_sep)
  then show ?thesis using True by (simp add: attendees_of_def)
qed

lemma set_py_join: "x \<in> set xs \<Longrightarrow> set x \<subseteq> set (py_join sep xs)"
  by (induction sep xs rule: py_join.induct) auto

lemma attendees_text_none:
  "attendees_text attendees_input = ''none'' \<longleftrightarrow> attendees_of attendees_input = []"
proof (cases "attendees_of attendees_input = []")
  case True
  then show ?thesis by (simp add: attendees_text_def)
next
  case False
  then obtain e where e: "e \<in> set (attendees_of attendees_input)"
    by (cases "attendees_of attendees_input") auto
  then have "e \<in> set (attendee_emails attendees_input)" "CHR ''@'' \<in> set e"
    by (auto simp: attendees_of_def split: if_splits)
  then have "CHR ''@'' \<in> set (py_join '', '' (attendee_emails attendees_input))"
    using set_py_join by blast
  moreover have "CHR ''@'' \<notin> set ''none''" by simp
  ultimately have "py_join '', '' (attendee_emails attendees_input) \<noteq> ''none''"
    by metis
  then show ?thesis using False by (simp add: attendees_text_def)
qed

lemma schedule_meeting_free:
  assumes g: "get_calendar_service w s = (Inr (Session service), s1)"
    and p: "strptime date_str = Inr d"
    and z: "localize_9am w d = Inr start_time"
    and a: "add_minutes start_time duration_minutes = Inr end_time"
    and l: "events_list w (trace s1) service (conflict_query start_time end_time) = Inr []"
    and i: "stdin s = attendees_input # rest"
  shows "\<exists>tail. trace (snd (schedule_meeting w meeting_title duration_minutes date_str s))
           = trace s1 @ [ListEvents (conflict_query start_time end_time),
                         Input attendees_prompt (Some attendees_input),
                         InsertEvent ''primary''
                           (meeting_event meeting_title start_time end_time
                              (attendees_of attendees_input))] @ tail
         \<and> list_all (\<lambda>a. \<not> is_insert a) tail
         \<and> (events_insert w
               (trace s1 @ [ListEvents (conflict_query start_time end_time),
                            Input attendees_prompt (Some attendees_input)])
               service
               (meeting_event meeting_title start_time end_time
                  (attendees_of attendees_input)) = None \<longrightarrow>
             tail = [RunAgent SchedulingAgent
                       (confirm_prompt meeting_title date_str duration_minutes attendees_input)])"
proof -
  let ?q = "conflict_query start_time end_time"
  let ?ev = "meeting_event meeting_title start_time end_time (attendees_of attendees_input)"
  let ?s2 = "\<lparr>stdin = rest, trace = trace s1 @ [ListEvents ?q, Input attendees_prompt (Some attendees_input)]\<rparr>"
  have i1: "stdin s1 = attendees_input # rest"
    using stdin_get_calendar_service [of w s] g i by simp
  have t: "schedule_try w service meeting_title duration_minutes date_str s1
             = (case events_insert w (trace ?s2) service ?ev of
                   Some e \<Rightarrow> (Inl e, log (InsertEvent ''primary'' ?ev) ?s2)
                 | None \<Rightarrow> run_sync w SchedulingAgent
                     (confirm_prompt meeting_title date_str duration_minutes attendees_input)
                     (log (InsertEvent ''primary'' ?ev) ?s2))"
    using schedule_try_free [OF meeting_window_eq [OF p z a] l i1, of meeting_title]
    by (simp add: Let_def)
  have m: "snd (schedule_meeting w meeting_title duration_minutes date_str s)
             = snd (schedule_try w service meeting_title duration_minutes date_str s1)"
    using g by (auto simp: schedule_meeting_def split: prod.splits sum.splits)
  show ?thesis
  proof (cases "events_insert w (trace ?s2) service ?ev")
    case None
    then have "trace (snd (schedule_try w service meeting_title duration_minutes date_str s1))
                 = trace s1 @ [ListEvents ?q, Input attendees_prompt (Some attendees_input),
                               InsertEvent ''primary'' ?ev]
                     @ [RunAgent SchedulingAgent
                          (confirm_prompt meeting_title date_str duration_minutes attendees_input)]"
      unfolding t by (simp add: run_sync_def log_def)
    then show ?thesis using m None by simp
  next
    case (Some e)
    then have "trace (snd (schedule_try w service meeting_title duration_minutes date_str s1))
                 = trace s1 @ [ListEvents ?q, Input attendees_prompt (Some attendees_input),
                               InsertEvent ''primary'' ?ev] @ []"
      unfolding t by (simp add: log_def)
    then show ?thesis using m Some by simp
  qed
qed

text \<open>
  C4. When authentication succeeds, the date string is well formed and can be localized
  (it is not the first or last day of the calendar), the end of the window can be
  computed, the window holds no conflicting event, and a line of attendee input is there, the
  event that \<open>schedule_meeting\<close> inserts (its only insert call) is a timed event in the
  zone America/New\_York. Its start is the text of 09:00:00 on the parsed date at the
  zone's offset. Its end is the text of \<open>end_time\<close>, the date-time with the same offset
  whose date has ordinal \<open>k\<close> and whose minute of the day lies \<open>duration_minutes\<close> minutes
  after 09:00 on the parsed date, with no seconds. The concrete run below is the
  example of the claim: 30 minutes on 2025-03-10 give 09:00 to 09:30 on 2025-03-10.
\<close>

theorem schedule_meeting_event_window:
  assumes g: "get_calendar_service w s = (Inr (Session service), s1)"
    and p: "strptime date_str = Inr d"
    and z: "localize_9am w d = Inr start_time"
    and a: "add_minutes start_time duration_minutes = Inr end_time"
    and l: "events_list w (trace s1) service (conflict_query start_time end_time) = Inr []"
    and i: "stdin s = attendees_input # rest"
  shows "\<exists>ev tail k.
           trace (snd (schedule_meeting w meeting_title duration_minutes date_str s))
             = trace s1 @ [ListEvents (conflict_query start_time end_time),
                           Input attendees_prompt (Some attendees_input),
                           InsertEvent ''primary'' ev] @ tail
         \<and> list_all (\<lambda>a. \<not> is_insert a) tail
         \<and> summary ev = meeting_title
         \<and> ev_start ev
             = Timed (isoformat \<lparr>dt_date = d, hour = 9, minute = 0, second = 0, microsecond = 0,
                                 offset = utcoffset w d\<rparr>) ''America/New_York''
         \<and> ev_end ev = Timed (isoformat end_time) ''America/New_York''
         \<and> dt_date end_time = ord2ymd k \<and> 0 < k \<and> k \<le> max_ordinal
         \<and> k * 1440 + hour end_time * 60 + minute end_time
             = ymd2ord d * 1440 + 9 * 60 + duration_minutes
         \<and> 0 \<le> hour end_time \<and> hour end_time < 24
         \<and> 0 \<le> minute end_time \<and> minute end_time < 60
         \<and> second end_time = 0 \<and> microsecond end_time = 0
         \<and> offset end_time = utcoffset w d"
proof -
  let ?ev = "meeting_event meeting_title start_time end_time (attendees_of attendees_input)"
  obtain tail where t:
    "trace (snd (schedule_meeting w meeting_title duration_minutes date_str s))
       = trace s1 @ [ListEvents (conflict_query start_time end_time),
                     Input attendees_prompt (Some attendees_input),
                     InsertEvent ''primary'' ?ev] @ tail"
    "list_all (\<lambda>a. \<not> is_insert a) tail"
    using schedule_meeting_free [OF g p z a l i, of meeting_title] by blast
  obtain k where k:
    "dt_date end_time = ord2ymd k" "0 < k" "k \<le> max_ordinal"
    "k * 1440 + hour end_time * 60 + minute end_time = ymd2ord d * 1440 + 9 * 60 + duration_minutes"
    "0 \<le> hour end_time" "hour end_time < 24" "0 \<le> minute end_time" "minute end_time < 60"
    "second end_time = 0" "microsecond end_time = 0" "offset end_time = utcoffset w d"
    using add_minutes_9am [OF a [unfolded localize_9am_Inr [OF z]]] by blast
  have e: "summary ?ev = meeting_title"
    "ev_start ?ev = Timed (isoformat \<lparr>dt_date = d, hour = 9, minute = 0, second = 0,
                                      microsecond = 0, offset = utcoffset w d\<rparr>) ''America/New_York''"
    "ev_end ?ev = Timed (isoformat end_time) ''America/New_York''"
    using localize_9am_Inr [OF z] by (simp_all add: meeting_event_def nine_am_def)
  show ?thesis
    apply (rule exI [of _ ?ev])
    apply (rule exI [of _ tail])
    apply (rule exI [of _ k])
    using t k e apply (intro conjI)
                   apply assumption+
    done
qed


lemma stub_auth:
  "get_calendar_service stub_world (start_state [''a@x.com, bad, b@y.com''])
     = (Inr (Session (Service good_creds)),
        \<lparr>stdin = [''a@x.com, bad, b@y.com''], trace = [TokenExists, LoadToken, Build]\<rparr>)"
  by code_simp

lemma stub_parse: "strptime ''2025-03-10'' = Inr \<lparr>year = 2025, month = 3, day = 10\<rparr>"
  by code_simp

lemma stub_localize:
  "localize_9am stub_world \<lparr>year = 2025, month = 3, day = 10\<rparr>
     = Inr (nine_am stub_world \<lparr>year = 2025, month = 3, day = 10\<rparr>)"
  by code_simp

lemma stub_start:
  "nine_am stub_world \<lparr>year = 2025, month = 3, day = 10\<rparr>
     = \<lparr>dt_date = \<lparr>year = 2025, month = 3, day = 10\<rparr>, hour = 9, minute = 0,
        second = 0, microsecond = 0, offset = - 240\<rparr>"
  by code_simp

lemma stub_localize_value:
  "localize_9am stub_world \<lparr>year = 2025, month = 3, day = 10\<rparr>
     = Inr \<lparr>dt_date = \<lparr>year = 2025, month = 3, day = 10\<rparr>, hour = 9, minute = 0,
            second = 0, microsecond = 0, offset = - 240\<rparr>"
  by code_simp

lemma stub_end_value:
  "add_minutes
       \<lparr>dt_date = \<lparr>year = 2025, month = 3, day = 10\<rparr>, hour = 9, minute = 0,
            second = 0, microsecond = 0, offset = - 240\<rparr> 30
     = Inr \<lparr>dt_date = \<lparr>year = 2025, month = 3, day = 10\<rparr>, hour = 9, minute = 30,
            second = 0, microsecond = 0, offset = - 240\<rparr>"
  by code_simp

lemma stub_end:
  "add_minutes (nine_am stub_world \<lparr>year = 2025, month = 3, day = 10\<rparr>) 30
     = Inr \<lparr>dt_date = \<lparr>year = 2025, month = 3, day = 10\<rparr>, hour = 9, minute = 30,
            second = 0, microsecond = 0, offset = - 240\<rparr>"
  by code_simp

lemma stub_free:
  "events_list stub_world
     (trace \<lparr>stdin = [''a@x.com, bad, b@y.com''], trace = [TokenExists, LoadToken, Build]\<rparr>)
     (Service good_creds)
     (conflict_query (nine_am stub_world \<lparr>year = 2025, month = 3, day = 10\<rparr>)
        \<lparr>dt_date = \<lparr>year = 2025, month = 3, day = 10\<rparr>, hour = 9, minute = 30,
          second = 0, microsecond = 0, offset = - 240\<rparr>) = Inr []"
  by (simp add: stub_world_def)

lemma stub_stdin:
  "stdin (start_state [''a@x.com, bad, b@y.com'']) = ''a@x.com, bad, b@y.com'' # []"
  by (simp add: start_state_def)

lemma stub_window_text:
  "conflict_query (nine_am stub_world \<lparr>year = 2025, month = 3, day = 10\<rparr>)
     \<lparr>dt_date = \<lparr>year = 2025, month = 3, day = 10\<rparr>, hour = 9, minute = 30,
       second = 0, microsecond = 0, offset = - 240\<rparr>
     = \<lparr>calendarId = ''primary'', timeMin = ''2025-03-10T09:00:00-04:00'',
        timeMax = ''2025-03-10T09:30:00-04:00'', timeZone = ''America/New_York'',
        singleEvents = True, orderBy = ''startTime''\<rparr>"
  "isoformat \<lparr>dt_date = \<lparr>year = 2025, month = 3, day = 10\<rparr>, hour = 9, minute = 0,
               second = 0, microsecond = 0,
               offset = utcoffset stub_world \<lparr>year = 2025, month = 3, day = 10\<rparr>\<rparr>
     = ''2025-03-10T09:00:00-04:00''"
  "isoformat \<lparr>dt_date = \<lparr>year = 2025, month = 3, day = 10\<rparr>, hour = 9, minute = 30,
               second = 0, microsecond = 0, offset = - 240\<rparr>
     = ''2025-03-10T09:30:00-04:00''"
  by code_simp+

theorem schedule_meeting_event_window_witness:
  "get_calendar_service stub_world (start_state [''a@x.com, bad, b@y.com''])
     = (Inr (Session (Service good_creds)),
        \<lparr>stdin = [''a@x.com, bad, b@y.com''], trace = [TokenExists, LoadToken, Build]\<rparr>)
   \<and> strptime ''2025-03-10'' = Inr \<lparr>year = 2025, month = 3, day = 10\<rparr>
   \<and> localize_9am stub_world \<lparr>year = 2025, month = 3, day = 10\<rparr>
     = Inr \<lparr>dt_date = \<lparr>year = 2025, month = 3, day = 10\<rparr>, hour = 9, minute = 0,
            second = 0, microsecond = 0, offset = - 240\<rparr>
   \<and> add_minutes
       \<lparr>dt_date = \<lparr>year = 2025, month = 3, day = 10\<rparr>, hour = 9, minute = 0,
            second = 0, microsecond = 0, offset = - 240\<rparr> 30
     = Inr \<lparr>dt_date = \<lparr>year = 2025, month = 3, day = 10\<rparr>, hour = 9, minute = 30,
            second = 0, microsecond = 0, offset = - 240\<rparr>
   \<and> (\<exists>ev tail.
         trace (snd (schedule_meeting stub_world ''Sync'' 30 ''2025-03-10''
                       (start_state [''a@x.com, bad, b@y.com''])))
           = [TokenExists, LoadToken, Build,
              ListEvents \<lparr>calendarId = ''primary'', timeMin = ''2025-03-10T09:00:00-04:00'',
                          timeMax = ''2025-03-10T09:30:00-04:00'',
                          timeZone = ''America/New_York'', singleEvents = True,
                          orderBy = ''startTime''\<rparr>,
              Input attendees_prompt (Some ''a@x.com, bad, b@y.com''),
              InsertEvent ''primary'' ev] @ tail
         \<and> summary ev = ''Sync''
         \<and> ev_start ev = Timed ''2025-03-10T09:00:00-04:00'' ''America/New_York''
         \<and> ev_end ev = Timed ''2025-03-10T09:30:00-04:00'' ''America/New_York'')"
proof -
  obtain ev tail where
    "trace (snd (schedule_meeting stub_world ''Sync'' 30 ''2025-03-10''
                   (start_state [''a@x.com, bad, b@y.com''])))
       = [TokenExists, LoadToken, Build,
          ListEvents \<lparr>calendarId = ''primary'', timeMin = ''2025-03-10T09:00:00-04:00'',
                      timeMax = ''2025-03-10T09:30:00-04:00'',
                      timeZone = ''America/New_York'', singleEvents = True,
                      orderBy = ''startTime''\<rparr>,
          Input attendees_prompt (Some ''a@x.com, bad, b@y.com''),
          InsertEvent ''primary'' ev] @ tail"
    "summary ev = ''Sync''"
    "ev_start ev = Timed ''2025-03-10T09:00:00-04:00'' ''America/New_York''"
    "ev_end ev = Timed ''2025-03-10T09:30:00-04:00'' ''America/New_York''"
    using schedule_meeting_event_window
            [OF stub_auth stub_parse stub_localize stub_end stub_free stub_stdin, of "''Sync''"]
    unfolding stub_window_text by auto
  then show ?thesis
    using stub_auth stub_parse stub_localize_value stub_end_value by blast
qed

text \<open>
  C6. Under the conditions of C4 for an event to be inserted, the attendee list attached
  to the event that \<open>schedule_meeting\<close> inserts holds, in order, the comma-separated entries of the attendee input, each trimmed, that are
  non-empty and contain the character \<open>@\<close>, and no others. For the input
  \<open>a@x.com, bad, b@y.com\<close> these are exactly \<open>a@x.com\<close> and \<open>b@y.com\<close>.
\<close>

theorem schedule_meeting_attendees:
  assumes g: "get_calendar_service w s = (Inr (Session service), s1)"
    and p: "strptime date_str = Inr d"
    and z: "localize_9am w d = Inr start_time"
    and a: "add_minutes start_time duration_minutes = Inr end_time"
    and l: "events_list w (trace s1) service (conflict_query start_time end_time) = Inr []"
    and i: "stdin s = attendees_input # rest"
  shows "\<exists>ev tail.
           trace (snd (schedule_meeting w meeting_title duration_minutes date_str s))
             = trace s1 @ [ListEvents (conflict_query start_time end_time),
                           Input attendees_prompt (Some attendees_input),
                           InsertEvent ''primary'' ev] @ tail
         \<and> list_all (\<lambda>a. \<not> is_insert a) tail
         \<and> attendees ev
             = Some (filter (\<lambda>email. email \<noteq> [] \<and> CHR ''@'' \<in> set email)
                       (map py_strip (split_on CHR '','' attendees_input)))"
proof -
  let ?ev = "meeting_event meeting_title start_time end_time (attendees_of attendees_input)"
  obtain tail where t:
    "trace (snd (schedule_meeting w meeting_title duration_minutes date_str s))
       = trace s1 @ [ListEvents (conflict_query start_time end_time),
                     Input attendees_prompt (Some attendees_input),
                     InsertEvent ''primary'' ?ev] @ tail"
    "list_all (\<lambda>a. \<not> is_insert a) tail"
    using schedule_meeting_free [OF g p z a l i, of meeting_title] by blast
  have "attendees ?ev
          = Some (filter (\<lambda>email. email \<noteq> [] \<and> CHR ''@'' \<in> set email)
                    (map py_strip (split_on CHR '','' attendees_input)))"
    using attendees_of_filter [of attendees_input] by (simp add: meeting_event_def)
  then show ?thesis using t by blast
qed

lemma example_entries:
  "filter (\<lambda>email. email \<noteq> [] \<and> CHR ''@'' \<in> set email)
     (map py_strip (split_on CHR '','' ''a@x.com, bad, b@y.com'')) = [''a@x.com'', ''b@y.com'']"
  by code_simp

theorem schedule_meeting_attendees_witness:
  "get_calendar_service stub_world (start_state [''a@x.com, bad, b@y.com''])
     = (Inr (Session (Service good_creds)),
        \<lparr>stdin = [''a@x.com, bad, b@y.com''], trace = [TokenExists, LoadToken, Build]\<rparr>)
   \<and> strptime ''2025-03-10'' = Inr \<lparr>year = 2025, month = 3, day = 10\<rparr>
   \<and> localize_9am stub_world \<lparr>year = 2025, month = 3, day = 10\<rparr>
     = Inr \<lparr>dt_date = \<lparr>year = 2025, month = 3, day = 10\<rparr>, hour = 9, minute = 0,
            second = 0, microsecond = 0, offset = - 240\<rparr>
   \<and> stdin (start_state [''a@x.com, bad, b@y.com'']) = [''a@x.com, bad, b@y.com'']
   \<and> (\<exists>ev tail.
         trace (snd (schedule_meeting stub_world ''Sync'' 30 ''2025-03-10''
                       (start_state [''a@x.com, bad, b@y.com''])))
           = [TokenExists, LoadToken, Build,
              ListEvents \<lparr>calendarId = ''primary'', timeMin = ''2025-03-10T09:00:00-04:00'',
                          timeMax = ''2025-03-10T09:30:00-04:00'',
                          timeZone = ''America/New_York'', singleEvents = True,
                          orderBy = ''startTime''\<rparr>,
              Input attendees_prompt (Some ''a@x.com, bad, b@y.com''),
              InsertEvent ''primary'' ev] @ tail
         \<and> attendees ev = Some [''a@x.com'', ''b@y.com''])"
proof -
  obtain ev tail where
    "trace (snd (schedule_meeting stub_world ''Sync'' 30 ''2025-03-10''
                   (start_state [''a@x.com, bad, b@y.com''])))
       = [TokenExists, LoadToken, Build,
          ListEvents \<lparr>calendarId = ''primary'', timeMin = ''2025-03-10T09:00:00-04:00'',
                      timeMax = ''2025-03-10T09:30:00-04:00'',
                      timeZone = ''America/New_York'', singleEvents = True,
                      orderBy = ''startTime''\<rparr>,
          Input attendees_prompt (Some ''a@x.com, bad, b@y.com''),
          InsertEvent ''primary'' ev] @ tail"
    "attendees ev = Some [''a@x.com'', ''b@y.com'']"
    using schedule_meeting_attendees
            [OF stub_auth stub_parse stub_localize stub_end stub_free stub_stdin, of "''Sync''"]
    unfolding stub_window_text example_entries by auto
  then show ?thesis
    using stub_auth stub_parse stub_localize_value stub_stdin by blast
qed

text \<open>
  C10, as amended. Under the conditions of C4 for an event to be inserted, and when the
  insert call succeeds, the prompt sent to the SchedulingAgent names the attendees as
  follows: if at least one entry of the attendee input is kept for the event, the prompt
  lists all the trimmed comma-separated entries, joined by a comma and a space, the
  entries left out of the event included; it says \<open>none\<close> exactly when no entry is kept,
  which is also the case of a non-empty input whose entries all lack the \<open>@\<close>. In the
  concrete run the prompt mentions \<open>bad\<close>, which is not among the attendees of the
  inserted event.
\<close>

theorem schedule_meeting_confirmation_attendees:
  assumes g: "get_calendar_service w s = (Inr (Session service), s1)"
    and p: "strptime date_str = Inr d"
    and z: "localize_9am w d = Inr start_time"
    and a: "add_minutes start_time duration_minutes = Inr end_time"
    and l: "events_list w (trace s1) service (conflict_query start_time end_time) = Inr []"
    and i: "stdin s = attendees_input # rest"
    and ins: "events_insert w
                (trace s1 @ [ListEvents (conflict_query start_time end_time),
                             Input attendees_prompt (Some attendees_input)])
                service
                (meeting_event meeting_title start_time end_time
                   (attendees_of attendees_input)) = None"
  shows "\<exists>ev listed.
           trace (snd (schedule_meeting w meeting_title duration_minutes date_str s))
             = trace s1 @ [ListEvents (conflict_query start_time end_time),
                           Input attendees_prompt (Some attendees_input),
                           InsertEvent ''primary'' ev,
                           RunAgent SchedulingAgent
                             (''Confirm a meeting titled '' @ [CHR 0x27] @ meeting_title
                                @ [CHR 0x27] @ '' scheduled on '' @ date_str
                                @ '' at 9:00 AM EST for '' @ str_int duration_minutes
                                @ '' minutes with attendees '' @ listed @ ''.'')]
         \<and> attendees ev
             = Some (filter (\<lambda>email. email \<noteq> [] \<and> CHR ''@'' \<in> set email)
                       (map py_strip (split_on CHR '','' attendees_input)))
         \<and> listed
             = (if filter (\<lambda>email. email \<noteq> [] \<and> CHR ''@'' \<in> set email)
                     (map py_strip (split_on CHR '','' attendees_input)) = []
                then ''none''
                else py_join '', '' (map py_strip (split_on CHR '','' attendees_input)))
         \<and> (listed = ''none'' \<longleftrightarrow>
              filter (\<lambda>email. email \<noteq> [] \<and> CHR ''@'' \<in> set email)
                (map py_strip (split_on CHR '','' attendees_input)) = [])"
proof -
  let ?ev = "meeting_event meeting_title start_time end_time (attendees_of attendees_input)"
  let ?kept = "filter (\<lambda>email. email \<noteq> [] \<and> CHR ''@'' \<in> set email)
                 (map py_strip (split_on CHR '','' attendees_input))"
  have k: "attendees_of attendees_input = ?kept"
    by (rule attendees_of_filter)
  obtain tail where t:
    "trace (snd (schedule_meeting w meeting_title duration_minutes date_str s))
       = trace s1 @ [ListEvents (conflict_query start_time end_time),
                     Input attendees_prompt (Some attendees_input),
                     InsertEvent ''primary'' ?ev] @ tail"
    "tail = [RunAgent SchedulingAgent
               (confirm_prompt meeting_title date_str duration_minutes attendees_input)]"
    using schedule_meeting_free [OF g p z a l i, of meeting_title] ins by blast
  have tr: "trace (snd (schedule_meeting w meeting_title duration_minutes date_str s))
       = trace s1 @ [ListEvents (conflict_query start_time end_time),
                     Input attendees_prompt (Some attendees_input),
                     InsertEvent ''primary'' ?ev,
                     RunAgent SchedulingAgent
                       (''Confirm a meeting titled '' @ [CHR 0x27] @ meeting_title
                          @ [CHR 0x27] @ '' scheduled on '' @ date_str
                          @ '' at 9:00 AM EST for '' @ str_int duration_minutes
                          @ '' minutes with attendees '' @ attendees_text attendees_input @ ''.'')]"
    using t by (simp add: confirm_prompt_def)
  have ev: "attendees ?ev = Some ?kept"
    using k by (simp add: meeting_event_def)
  have li: "attendees_text attendees_input
              = (if ?kept = [] then ''none''
                 else py_join '', '' (map py_strip (split_on CHR '','' attendees_input)))"
    using k by (simp add: attendees_text_def attendee_emails_def)
  have no: "attendees_text attendees_input = ''none'' \<longleftrightarrow> ?kept = []"
    using attendees_text_none [of attendees_input] k by simp
  show ?thesis
    apply (rule exI [of _ ?ev])
    apply (rule exI [of _ "attendees_text attendees_input"])
    using tr ev li no apply (intro conjI)
       apply assumption+
    done
qed

lemma stub_insert:
  "events_insert stub_world
     (trace \<lparr>stdin = [''a@x.com, bad, b@y.com''], trace = [TokenExists, LoadToken, Build]\<rparr>
        @ [ListEvents (conflict_query (nine_am stub_world \<lparr>year = 2025, month = 3, day = 10\<rparr>)
             \<lparr>dt_date = \<lparr>year = 2025, month = 3, day = 10\<rparr>, hour = 9, minute = 30,
               second = 0, microsecond = 0, offset = - 240\<rparr>),
           Input attendees_prompt (Some ''a@x.com, bad, b@y.com'')])
     (Service good_creds)
     (meeting_event ''Sync'' (nine_am stub_world \<lparr>year = 2025, month = 3, day = 10\<rparr>)
        \<lparr>dt_date = \<lparr>year = 2025, month = 3, day = 10\<rparr>, hour = 9, minute = 30,
          second = 0, microsecond = 0, offset = - 240\<rparr>
        (attendees_of ''a@x.com, bad, b@y.com'')) = None"
  by (simp add: stub_world_def)

lemma example_listed:
  "py_join '', '' (map py_strip (split_on CHR '','' ''a@x.com, bad, b@y.com''))
     = ''a@x.com, bad, b@y.com''"
  "str_int 30 = ''30''"
  by code_simp+

theorem schedule_meeting_confirmation_attendees_witness:
  "get_calendar_service stub_world (start_state [''a@x.com, bad, b@y.com''])
     = (Inr (Session (Service good_creds)),
        \<lparr>stdin = [''a@x.com, bad, b@y.com''], trace = [TokenExists, LoadToken, Build]\<rparr>)
   \<and> strptime ''2025-03-10'' = Inr \<lparr>year = 2025, month = 3, day = 10\<rparr>
   \<and> localize_9am stub_world \<lparr>year = 2025, month = 3, day = 10\<rparr>
     = Inr \<lparr>dt_date = \<lparr>year = 2025, month = 3, day = 10\<rparr>, hour = 9, minute = 0,
            second = 0, microsecond = 0, offset = - 240\<rparr>
   \<and> stdin (start_state [''a@x.com, bad, b@y.com'']) = [''a@x.com, bad, b@y.com'']
   \<and> (\<exists>ev.
         trace (snd (schedule_meeting stub_world ''Sync'' 30 ''2025-03-10''
                       (start_state [''a@x.com, bad, b@y.com''])))
           = [TokenExists, LoadToken, Build,
              ListEvents \<lparr>calendarId = ''primary'', timeMin = ''2025-03-10T09:00:00-04:00'',
                          timeMax = ''2025-03-10T09:30:00-04:00'',
                          timeZone = ''America/New_York'', singleEvents = True,
                          orderBy = ''startTime''\<rparr>,
              Input attendees_prompt (Some ''a@x.com, bad, b@y.com''),
              InsertEvent ''primary'' ev,
              RunAgent SchedulingAgent
                (''Confirm a meeting titled '' @ [CHR 0x27] @ ''Sync'' @ [CHR 0x27]
                   @ '' scheduled on 2025-03-10 at 9:00 AM EST for 30 minutes with attendees ''
                   @ ''a@x.com, bad, b@y.com'' @ ''.'')]
         \<and> attendees ev = Some [''a@x.com'', ''b@y.com''])"
proof -
  obtain ev where
    "trace (snd (schedule_meeting stub_world ''Sync'' 30 ''2025-03-10''
                   (start_state [''a@x.com, bad, b@y.com''])))
       = [TokenExists, LoadToken, Build,
          ListEvents \<lparr>calendarId = ''primary'', timeMin = ''2025-03-10T09:00:00-04:00'',
                      timeMax = ''2025-03-10T09:30:00-04:00'',
                      timeZone = ''America/New_York'', singleEvents = True,
                      orderBy = ''startTime''\<rparr>,
          Input attendees_prompt (Some ''a@x.com, bad, b@y.com''),
          InsertEvent ''primary'' ev,
          RunAgent SchedulingAgent
            (''Confirm a meeting titled '' @ [CHR 0x27] @ ''Sync'' @ [CHR 0x27]
               @ '' scheduled on 2025-03-10 at 9:00 AM EST for 30 minutes with attendees ''
               @ ''a@x.com, bad, b@y.com'' @ ''.'')]"
    "attendees ev = Some [''a@x.com'', ''b@y.com'']"
    using schedule_meeting_confirmation_attendees
            [OF stub_auth stub_parse stub_localize stub_end stub_free stub_stdin stub_insert]
    unfolding stub_window_text example_entries example_listed by auto
  then show ?thesis
    using stub_auth stub_parse stub_localize_value stub_stdin by blast
qed

text \<open>
  C10 as the specification states it fails for a non-empty attendee input none of whose entries holds
  an \<open>@\<close>: for the input \<open>bad\<close> the one parsed entry is \<open>bad\<close>, the event gets no
  attendee, and the prompt says \<open>none\<close> instead of listing \<open>bad\<close>.
\<close>

theorem confirmation_says_none_without_kept_entry:
  "py_strip ''bad'' \<noteq> []
   \<and> map py_strip (split_on CHR '','' ''bad'') = [''bad'']
   \<and> CHR ''@'' \<notin> set ''bad''
   \<and> trace (snd (schedule_meeting stub_world ''Sync'' 30 ''2025-03-10'' (start_state [''bad''])))
     = [TokenExists, LoadToken, Build,
        ListEvents \<lparr>calendarId = ''primary'', timeMin = ''2025-03-10T09:00:00-04:00'',
                    timeMax = ''2025-03-10T09:30:00-04:00'', timeZone = ''America/New_York'',
                    singleEvents = True, orderBy = ''startTime''\<rparr>,
        Input attendees_prompt (Some ''bad''),
        InsertEvent ''primary''
          \<lparr>summary = ''Sync'',
           ev_start = Timed ''2025-03-10T09:00:00-04:00'' ''America/New_York'',
           ev_end = Timed ''2025-03-10T09:30:00-04:00'' ''America/New_York'',
           description = None,
           attendees = Some []\<rparr>,
        RunAgent SchedulingAgent
          (''Confirm a meeting titled '' @ [CHR 0x27] @ ''Sync'' @ [CHR 0x27]
             @ '' scheduled on 2025-03-10 at 9:00 AM EST for 30 minutes with attendees ''
             @ ''none'' @ ''.'')]"
  by code_simp

text \<open>
  The error paths of the window: the first and the last day of the calendar pass
  \<open>strptime\<close> and fail in \<open>localize\<close>, so that \<open>schedule_meeting\<close> returns its error text
  without a conflict query.
\<close>

lemma boundary_dates_not_localized:
  "strptime ''9999-12-31'' = Inr \<lparr>year = 9999, month = 12, day = 31\<rparr>"
  "strptime ''0001-01-01'' = Inr \<lparr>year = 1, month = 1, day = 1\<rparr>"
  "meeting_window stub_world ''9999-12-31'' 30 = Inl (Lib DateOverflow)"
  "meeting_window stub_world ''0001-01-01'' 30 = Inl (Lib DateOverflow)"
  "schedule_meeting stub_world ''Sync'' 30 ''9999-12-31'' (start_state [''a@x.com''])
     = (Inr ''Error scheduling meeting: library error'',
        \<lparr>stdin = [''a@x.com''], trace = [TokenExists, LoadToken, Build]\<rparr>)"
  by code_simp+

subsection \<open>Menu loop\<close>

lemma menu_loop_crash: "menu_step w s = Crash e s' \<Longrightarrow> menu_loop w s = (Inl e, s')"
  by (subst menu_loop.simps) simp

lemma menu_loop_continue: "menu_step w s = Continue s' \<Longrightarrow> menu_loop w s = menu_loop w s'"
  by (subst menu_loop.simps) simp

lemma menu_loop_exit: "menu_step w s = Exit s' \<Longrightarrow> menu_loop w s = (Inr (), s')"
  by (subst menu_loop.simps) simp

lemma menu_step_bad_duration:
  assumes "stdin s = ''3'' # title # duration_text # rest"
    and "py_int w duration_text = Inl e"
  shows "menu_step w s
           = Crash e \<lparr>stdin = rest,
                      trace = trace s @ [Input choice_prompt (Some ''3''),
                                         Input ''Enter meeting title: '' (Some title),
                                         Input ''Enter duration in minutes: ''
                                           (Some duration_text)]\<rparr>"
  using assms by (simp add: menu_step_def schedule_choice_def input_line_def log_def)

text \<open>
  C8. When a pass of the menu loop reads the choice 3, a title, and a duration text
  that \<open>int\<close> rejects, the exception is caught nowhere: \<open>menu_loop\<close> ends with it raised,
  having asked for nothing after the duration (no date prompt, no return to the choice
  prompt), and so does \<open>run_demo\<close> when this is its first interaction.
\<close>

theorem run_demo_bad_duration_propagates:
  assumes "stdin s = ''3'' # title # duration_text # rest"
    and "py_int w duration_text = Inl e"
  shows "menu_loop w s
           = (Inl e, \<lparr>stdin = rest,
                      trace = trace s @ [Input choice_prompt (Some ''3''),
                                         Input ''Enter meeting title: '' (Some title),
                                         Input ''Enter duration in minutes: ''
                                           (Some duration_text)]\<rparr>)
         \<and> fst (run_demo w s) = Inl e"
proof -
  have l: "\<And>s. stdin s = ''3'' # title # duration_text # rest \<Longrightarrow>
             menu_loop w s
               = (Inl e, \<lparr>stdin = rest,
                          trace = trace s @ [Input choice_prompt (Some ''3''),
                                             Input ''Enter meeting title: '' (Some title),
                                             Input ''Enter duration in minutes: ''
                                               (Some duration_text)]\<rparr>)"
    using assms(2) by (intro menu_loop_crash menu_step_bad_duration)
  have "fst (run_demo w s) = Inl e"
    unfolding run_demo_def by (subst l) (simp_all add: stdin_print assms(1))
  then show ?thesis using l [OF assms(1)] by simp
qed

lemma int_rejects_words: "py_int stub_world ''half an hour'' = Inl (Lib (BadInt ''half an hour''))"
  by code_simp

theorem run_demo_bad_duration_propagates_witness:
  "stdin (start_state [''3'', ''Sync'', ''half an hour'', ''2025-03-10'', ''4''])
     = ''3'' # ''Sync'' # ''half an hour'' # [''2025-03-10'', ''4'']
   \<and> py_int stub_world ''half an hour'' = Inl (Lib (BadInt ''half an hour''))
   \<and> menu_loop stub_world (start_state [''3'', ''Sync'', ''half an hour'', ''2025-03-10'', ''4''])
     = (Inl (Lib (BadInt ''half an hour'')),
        \<lparr>stdin = [''2025-03-10'', ''4''],
         trace = [Input choice_prompt (Some ''3''),
                  Input ''Enter meeting title: '' (Some ''Sync''),
                  Input ''Enter duration in minutes: '' (Some ''half an hour'')]\<rparr>)
   \<and> fst (run_demo stub_world (start_state [''3'', ''Sync'', ''half an hour'', ''2025-03-10'', ''4'']))
     = Inl (Lib (BadInt ''half an hour''))"
proof -
  have h: "stdin (start_state [''3'', ''Sync'', ''half an hour'', ''2025-03-10'', ''4''])
     = ''3'' # ''Sync'' # ''half an hour'' # [''2025-03-10'', ''4'']"
    by (simp add: start_state_def)
  have t: "trace (start_state [''3'', ''Sync'', ''half an hour'', ''2025-03-10'', ''4'']) = []"
    by (simp add: start_state_def)
  show ?thesis
    using h int_rejects_words run_demo_bad_duration_propagates [OF h int_rejects_words] unfolding t by simp
qed

text \<open>
  The whitespace of \<open>int\<close> and of \<open>str.strip\<close> on concrete inputs: \<open>int\<close> rejects a
  literal padded with the separator 0x1C or 0x1F and accepts one padded with the no-break
  space.
\<close>

lemma int_whitespace:
  "py_int stub_world [CHR 0x1C, CHR ''7''] = Inl (Lib (BadInt [CHR 0x1C, CHR ''7'']))"
  "py_int stub_world [CHR ''7'', CHR 0x1F] = Inl (Lib (BadInt [CHR ''7'', CHR 0x1F]))"
  "py_int stub_world [CHR 0xA0, CHR ''5''] = Inr 5"
  "py_int stub_world '' 12 '' = Inr 12"
  "py_strip [CHR 0xA0, CHR ''5'', CHR 0x85, CHR 0x1C] = ''5''"
  by code_simp+

lemma extends_print: "extends_by anything s s1 \<Longrightarrow> extends_by anything s (print t s1)"
  by (simp add: print_def extends_log_trans)

lemma run_sync_extends: "extends_by anything s (snd (run_sync w ag p s))"
  by (simp add: run_sync_def extends_log)

lemma get_calendar_service_extends: "extends_by anything s (snd (get_calendar_service w s))"
  using get_calendar_service_trace [of s w] by (rule extends_mono) simp

lemma generate_meeting_brief_extends:
  "extends_by anything s (snd (generate_meeting_brief w notes s))"
  using run_sync_extends [of s w TaskAgent "brief_prompt notes"]
  by (cases "run_sync w TaskAgent (brief_prompt notes) s")
     (auto simp: generate_meeting_brief_def split: sum.splits)

lemma create_reminder_extends: "extends_by anything s (snd (create_reminder w task s))"
proof -
  obtain r1 s1 where a: "run_sync w TaskAgent (reminder_prompt task) s = (r1, s1)"
    by (cases "run_sync w TaskAgent (reminder_prompt task) s")
  have s1: "extends_by anything s s1"
    using run_sync_extends [of s w TaskAgent "reminder_prompt task"] a by simp
  obtain r2 s2 where g: "get_calendar_service w s1 = (r2, s2)"
    by (cases "get_calendar_service w s1")
  have s2: "extends_by anything s s2"
    using get_calendar_service_extends [of s1 w] g s1 by (auto intro: extends_trans)
  show ?thesis
    using a s1 g s2
    by (auto simp: create_reminder_def Let_def events_insert_execute_def
        split: sum.splits auth_result.splits option.splits intro!: extends_log_trans)
qed

lemma schedule_meeting_extends:
  "extends_by anything s (snd (schedule_meeting w t d ds s))"
proof -
  obtain r1 s1 where g: "get_calendar_service w s = (r1, s1)"
    by (cases "get_calendar_service w s")
  have s1: "extends_by anything s s1"
    using get_calendar_service_extends [of s w] g by simp
  show ?thesis
  proof (cases r1)
    case (Inl e)
    then show ?thesis using g s1 by (simp add: schedule_meeting_def)
  next
    case (Inr a)
    show ?thesis
    proof (cases a)
      case (ErrorMessage m)
      then show ?thesis using g Inr s1 by (simp add: schedule_meeting_def)
    next
      case (Session svc)
      have "snd (schedule_meeting w t d ds s) = snd (schedule_try w svc t d ds s1)"
        using g Inr Session by (auto simp: schedule_meeting_def split: prod.splits sum.splits)
      then show ?thesis
        using schedule_try_trace [of s1 w svc t d ds] s1 by (auto intro: extends_trans)
    qed
  qed
qed

lemma input_line_extends: "extends_by anything s (snd (input_line p s))"
  by (auto simp: input_line_def split: list.splits intro!: extends_log extends_log_trans
      extends_stdin extends_refl)


lemma reminder_choice_extends: "extends_by anything s (step_state (reminder_choice w s))"
proof -
  let ?p = "''Enter task description (e.g., 'Call client tomorrow'): ''"
  obtain r2 s2 where i: "input_line ?p s = (r2, s2)"
    by (cases "input_line ?p s")
  have s2: "extends_by anything s s2"
    using input_line_extends [of s ?p] i by simp
  show ?thesis
  proof (cases r2)
    case (Inl e)
    then show ?thesis using i s2 by (simp add: reminder_choice_def)
  next
    case (Inr task)
    obtain r s3 where c: "create_reminder w task (print result_header s2) = (r, s3)"
      by (cases "create_reminder w task (print result_header s2)")
    have "extends_by anything (print result_header s2) s3"
      using create_reminder_extends [of "print result_header s2" w task] c by simp
    then have "extends_by anything s (print r s3)"
      using s2 by (blast intro: extends_trans extends_print extends_refl)
    then show ?thesis using i Inr c by (simp add: reminder_choice_def)
  qed
qed

lemma brief_choice_extends: "extends_by anything s (step_state (brief_choice w s))"
proof -
  let ?p = "''Enter meeting notes (e.g., 'Discussed project timeline, need to finalize budget'): ''"
  obtain r2 s2 where i: "input_line ?p s = (r2, s2)"
    by (cases "input_line ?p s")
  have s2: "extends_by anything s s2"
    using input_line_extends [of s ?p] i by simp
  show ?thesis
  proof (cases r2)
    case (Inl e)
    then show ?thesis using i s2 by (simp add: brief_choice_def)
  next
    case (Inr nts)
    obtain r s3 where c: "generate_meeting_brief w nts (print result_header s2) = (r, s3)"
      by (cases "generate_meeting_brief w nts (print result_header s2)")
    have "extends_by anything (print result_header s2) s3"
      using generate_meeting_brief_extends [of "print result_header s2" w nts] c by simp
    then have "extends_by anything s (print r s3)"
      using s2 by (blast intro: extends_trans extends_print extends_refl)
    then show ?thesis using i Inr c by (simp add: brief_choice_def)
  qed
qed

lemma schedule_choice_extends: "extends_by anything s (step_state (schedule_choice w s))"
proof -
  obtain r2 s2 where i2: "input_line ''Enter meeting title: '' s = (r2, s2)"
    by (cases "input_line ''Enter meeting title: '' s")
  have s2: "extends_by anything s s2"
    using input_line_extends [of s "''Enter meeting title: ''"] i2 by simp
  obtain r3 s3 where i3: "input_line ''Enter duration in minutes: '' s2 = (r3, s3)"
    by (cases "input_line ''Enter duration in minutes: '' s2")
  have s3: "extends_by anything s s3"
    using input_line_extends [of s2 "''Enter duration in minutes: ''"] i3 s2
    by (auto intro: extends_trans)
  obtain r4 s4 where i4: "input_line ''Enter date (YYYY-MM-DD): '' s3 = (r4, s4)"
    by (cases "input_line ''Enter date (YYYY-MM-DD): '' s3")
  have s4: "extends_by anything s s4"
    using input_line_extends [of s3 "''Enter date (YYYY-MM-DD): ''"] i4 s3
    by (auto intro: extends_trans)
  have s5: "extends_by anything s y"
    if "schedule_meeting w t d ds (print result_header s4) = (r, y)" for t d ds r y
    using schedule_meeting_extends [of "print result_header s4" w t d ds] s4 that
    by (auto intro: extends_trans extends_print)
  have s6: "extends_by anything s (print x y)"
    if "schedule_meeting w t d ds (print result_header s4) = (r, y)" for t d ds r y x
    using s5 [OF that] by (rule extends_print)
  show ?thesis
    using i2 i3 i4 s2 s3 s4
    by (auto simp: schedule_choice_def split: sum.splits prod.splits dest: s5 s6)
qed

lemma menu_step_extends: "extends_by anything s (step_state (menu_step w s))"
proof -
  obtain r1 s1 where c: "input_line choice_prompt s = (r1, s1)"
    by (cases "input_line choice_prompt s")
  have s1: "extends_by anything s s1"
    using input_line_extends [of s choice_prompt] c by simp
  have "extends_by anything s1 (step_state (menu_step w s))"
    using c reminder_choice_extends [of s1 w] brief_choice_extends [of s1 w]
      schedule_choice_extends [of s1 w]
    by (cases r1) (simp_all add: menu_step_def extends_refl extends_print)
  then show ?thesis using s1 by (rule extends_trans [rotated])
qed

lemma menu_loop_extends: "extends_by anything s (snd (menu_loop w s))"
proof (induction w s rule: menu_loop.induct)
  case (1 w s)
  show ?case
  proof (cases "menu_step w s")
    case (Continue s')
    then have "extends_by anything s s'"
      using menu_step_extends [of s w] by simp
    moreover have "extends_by anything s' (snd (menu_loop w s'))"
      using 1 Continue by simp
    ultimately show ?thesis
      using menu_loop_continue [OF Continue] by (auto intro: extends_trans)
  next
    case (Exit s')
    then show ?thesis
      using menu_step_extends [of s w] menu_loop_exit [OF Exit] by simp
  next
    case (Crash e s')
    then show ?thesis
      using menu_step_extends [of s w] menu_loop_crash [OF Crash] by simp
  qed
qed

lemma menu_loop_prompts_first:
  "\<exists>line tail. trace (snd (menu_loop w s)) = trace s @ [Input choice_prompt line] @ tail"
proof -
  obtain r1 s1 where c: "input_line choice_prompt s = (r1, s1)"
    by (cases "input_line choice_prompt s")
  then obtain line where s1: "trace s1 = trace s @ [Input choice_prompt line]"
    by (auto simp: input_line_def log_def split: list.splits)
  have "extends_by anything s1 (step_state (menu_step w s))"
    using c reminder_choice_extends [of s1 w] brief_choice_extends [of s1 w]
      schedule_choice_extends [of s1 w]
    by (cases r1) (simp_all add: menu_step_def extends_refl extends_print)
  moreover have "extends_by anything (step_state (menu_step w s)) (snd (menu_loop w s))"
  proof (cases "menu_step w s")
    case (Continue s')
    then show ?thesis
      using menu_loop_extends [of s' w] menu_loop_continue [OF Continue] by simp
  next
    case (Exit s')
    then show ?thesis using menu_loop_exit [OF Exit] by (simp add: extends_refl)
  next
    case (Crash e s')
    then show ?thesis using menu_loop_crash [OF Crash] by (simp add: extends_refl)
  qed
  ultimately have "extends_by anything s1 (snd (menu_loop w s))"
    by (rule extends_trans)
  then show ?thesis using s1 by (auto simp: extends_by_def)
qed


text \<open>
  C9, as amended. An input at the choice prompt that is none of \<open>1\<close>, \<open>2\<close>, \<open>3\<close>,
  \<open>4\<close> makes the pass of the loop print the one line
  \<open>Invalid choice. Please try again.\<close> and nothing else; the loop goes on, and its next
  action is the choice prompt again. The menu is not among what is printed: it is
  printed once, by \<open>run_demo\<close>, before the loop starts.
\<close>

theorem invalid_choice_prompts_again:
  assumes "stdin s = choice # rest"
    and "choice \<noteq> ''1''" and "choice \<noteq> ''2''" and "choice \<noteq> ''3''" and "choice \<noteq> ''4''"
  shows "menu_step w s
           = Continue \<lparr>stdin = rest,
                        trace = trace s @ [Input choice_prompt (Some choice),
                                           Print ''Invalid choice. Please try again.'']\<rparr>
         \<and> (\<exists>line tail.
               trace (snd (menu_loop w s))
                 = trace s @ [Input choice_prompt (Some choice),
                              Print ''Invalid choice. Please try again.'',
                              Input choice_prompt line] @ tail)"
proof -
  let ?s' = "\<lparr>stdin = rest,
               trace = trace s @ [Input choice_prompt (Some choice),
                                  Print ''Invalid choice. Please try again.'']\<rparr>"
  have st: "menu_step w s = Continue ?s'"
    using assms
    by (simp add: menu_step_def input_line_def print_def log_def invalid_choice_def)
  obtain line tail where
    "trace (snd (menu_loop w ?s')) = trace ?s' @ [Input choice_prompt line] @ tail"
    using menu_loop_prompts_first [of w ?s'] by blast
  then have "trace (snd (menu_loop w s))
               = trace s @ [Input choice_prompt (Some choice),
                            Print ''Invalid choice. Please try again.'',
                            Input choice_prompt line] @ tail"
    using menu_loop_continue [OF st] by simp
  then show ?thesis using st by blast
qed

theorem invalid_choice_prompts_again_witness:
  "stdin (start_state [''5'', ''4'']) = ''5'' # [''4'']
   \<and> ''5'' \<noteq> ''1'' \<and> ''5'' \<noteq> ''2'' \<and> ''5'' \<noteq> ''3'' \<and> ''5'' \<noteq> ''4''
   \<and> menu_step stub_world (start_state [''5'', ''4''])
     = Continue \<lparr>stdin = [''4''],
                  trace = [Input choice_prompt (Some ''5''),
                           Print ''Invalid choice. Please try again.'']\<rparr>
   \<and> (\<exists>line tail.
         trace (snd (menu_loop stub_world (start_state [''5'', ''4''])))
           = [Input choice_prompt (Some ''5''), Print ''Invalid choice. Please try again.'',
              Input choice_prompt line] @ tail)"
proof -
  have h: "stdin (start_state [''5'', ''4'']) = ''5'' # [''4'']"
    by (simp add: start_state_def)
  have t: "trace (start_state [''5'', ''4'']) = []"
    by (simp add: start_state_def)
  have n: "''5'' \<noteq> ''1''" "''5'' \<noteq> ''2''" "''5'' \<noteq> ''3''" "''5'' \<noteq> ''4''"
    by simp_all
  show ?thesis
    using h n invalid_choice_prompts_again [OF h n, of stub_world] unfolding t by simp
qed

text \<open>
  C9 as the specification states it (the menu is reprinted after an invalid choice) fails: on the
  inputs \<open>5\<close> and \<open>4\<close> the menu lines appear once, before the first prompt, and between
  the rejected \<open>5\<close> and the next prompt only the error line is printed.
\<close>

theorem invalid_choice_menu_not_reprinted:
  "trace (snd (run_demo stub_world (start_state [''5'', ''4''])))
     = [Print ''=== AI-Powered Life Assistant Demo ==='',
        Print ''1. Set a reminder'', Print ''2. Generate a meeting brief'',
        Print ''3. Schedule a meeting'', Print ''4. Exit'',
        Input choice_prompt (Some ''5''),
        Print ''Invalid choice. Please try again.'',
        Input choice_prompt (Some ''4''),
        Print ''Demo ended. Thank you!'']
   \<and> \<not> reprints_menu ''5'' (trace (snd (run_demo stub_world (start_state [''5'', ''4'']))))"
  by code_simp

subsection \<open>Reminders\<close>

text \<open>
  C1, as amended. When the TaskAgent's output for a reminder request does not contain
  the handoff sentinel and the calendar step fails, \<open>create_reminder\<close> still returns a
  string: if authentication returns an error string, the result is
  \<open>AI reminder created, but calendar integration failed: \<close> followed by that error
  string; if the insert call raises, the result is \<open>Error creating reminder: \<close> followed
  by the text of the exception. Neither message is built from the agent's output.
\<close>

theorem create_reminder_calendar_failure:
  assumes r: "agent_reply w (trace s) TaskAgent (''Create a reminder for: '' @ task_description)
                = Inr final_output"
    and n: "\<not> contains handoff_sentinel final_output"
  shows "(\<forall>msg s2.
            get_calendar_service w
               (log (RunAgent TaskAgent (''Create a reminder for: '' @ task_description)) s)
              = (Inr (ErrorMessage msg), s2) \<longrightarrow>
            create_reminder w task_description s
              = (''AI reminder created, but calendar integration failed: '' @ msg, s2))
         \<and> (\<forall>service s2 tomorrow e.
              get_calendar_service w
                 (log (RunAgent TaskAgent (''Create a reminder for: '' @ task_description)) s)
                = (Inr (Session service), s2)
              \<and> date_add_days (today w (trace s2)) 1 = Inr tomorrow
              \<and> events_insert w (trace s2) service
                    (reminder_event task_description final_output (today w (trace s2)) tomorrow)
                  = Some e \<longrightarrow>
              create_reminder w task_description s
                = (''Error creating reminder: '' @ exn_str w e,
                   log (InsertEvent ''primary''
                          (reminder_event task_description final_output (today w (trace s2))
                             tomorrow)) s2))"
  using r n
  by (simp add: create_reminder_def run_sync_def reminder_prompt_def integration_failed_def
      reminder_error_def events_insert_execute_def Let_def)

theorem create_reminder_calendar_failure_witness:
  "agent_reply no_credentials_world (trace (start_state [])) TaskAgent
     (''Create a reminder for: '' @ ''Call client'')
     = Inr ''Noted. Create a reminder for: Call client''
   \<and> \<not> contains handoff_sentinel ''Noted. Create a reminder for: Call client''
   \<and> get_calendar_service no_credentials_world
         (log (RunAgent TaskAgent (''Create a reminder for: '' @ ''Call client''))
            (start_state []))
     = (Inr (ErrorMessage
               (''Error authorizing Google Calendar: credentials.json not found''
                  @ ''. Pre-authenticate by running option 3 once and approving the OAuth prompt.'')),
        \<lparr>stdin = [],
         trace = [RunAgent TaskAgent ''Create a reminder for: Call client'',
                  TokenExists, ConsentFlow]\<rparr>)
   \<and> create_reminder no_credentials_world ''Call client'' (start_state [])
     = (''AI reminder created, but calendar integration failed: ''
          @ ''Error authorizing Google Calendar: credentials.json not found''
          @ ''. Pre-authenticate by running option 3 once and approving the OAuth prompt.'',
        \<lparr>stdin = [],
         trace = [RunAgent TaskAgent ''Create a reminder for: Call client'',
                  TokenExists, ConsentFlow]\<rparr>)
   \<and> agent_reply insert_fails_world (trace (start_state [])) TaskAgent
     (''Create a reminder for: '' @ ''Call client'')
     = Inr ''Noted. Create a reminder for: Call client''
   \<and> get_calendar_service insert_fails_world
         (log (RunAgent TaskAgent (''Create a reminder for: '' @ ''Call client''))
            (start_state []))
     = (Inr (Session (Service good_creds)),
        \<lparr>stdin = [],
         trace = [RunAgent TaskAgent ''Create a reminder for: Call client'',
                  TokenExists, LoadToken, Build]\<rparr>)
   \<and> date_add_days \<lparr>year = 2025, month = 3, day = 10\<rparr> 1
     = Inr \<lparr>year = 2025, month = 3, day = 11\<rparr>
   \<and> create_reminder insert_fails_world ''Call client'' (start_state [])
     = (''Error creating reminder: '' @ ''quotaExceeded'',
        log (InsertEvent ''primary''
               (reminder_event ''Call client'' ''Noted. Create a reminder for: Call client''
                  \<lparr>year = 2025, month = 3, day = 10\<rparr> \<lparr>year = 2025, month = 3, day = 11\<rparr>))
          \<lparr>stdin = [],
           trace = [RunAgent TaskAgent ''Create a reminder for: Call client'',
                    TokenExists, LoadToken, Build]\<rparr>)"
proof -
  let ?out = "''Noted. Create a reminder for: Call client''"
  let ?s1 = "log (RunAgent TaskAgent (''Create a reminder for: '' @ ''Call client''))
               (start_state [])"
  let ?m = "''Error authorizing Google Calendar: credentials.json not found''
              @ ''. Pre-authenticate by running option 3 once and approving the OAuth prompt.''"
  let ?sa = "\<lparr>stdin = [],
              trace = [RunAgent TaskAgent ''Create a reminder for: Call client'',
                       TokenExists, ConsentFlow]\<rparr>"
  let ?sb = "\<lparr>stdin = [],
              trace = [RunAgent TaskAgent ''Create a reminder for: Call client'',
                       TokenExists, LoadToken, Build]\<rparr>"
  let ?td = "\<lparr>year = 2025, month = 3, day = 10\<rparr>"
  let ?tm = "\<lparr>year = 2025, month = 3, day = 11\<rparr>"
  have r1: "agent_reply no_credentials_world (trace (start_state [])) TaskAgent
              (''Create a reminder for: '' @ ''Call client'') = Inr ?out"
    by (simp add: no_credentials_world_def stub_world_def)
  have r2: "agent_reply insert_fails_world (trace (start_state [])) TaskAgent
              (''Create a reminder for: '' @ ''Call client'') = Inr ?out"
    by (simp add: insert_fails_world_def stub_world_def)
  have n: "\<not> contains handoff_sentinel ?out"
    by code_simp
  have g1: "get_calendar_service no_credentials_world ?s1 = (Inr (ErrorMessage ?m), ?sa)"
    by code_simp
  have g2: "get_calendar_service insert_fails_world ?s1 = (Inr (Session (Service good_creds)), ?sb)"
    by code_simp
  have t2: "today insert_fails_world (trace ?sb) = ?td"
    by (simp add: insert_fails_world_def stub_world_def)
  have d2: "date_add_days ?td 1 = Inr ?tm"
    by code_simp
  have d2': "date_add_days (today insert_fails_world (trace ?sb)) 1 = Inr ?tm"
    unfolding t2 by (rule d2)
  have i2: "events_insert insert_fails_world (trace ?sb) (Service good_creds)
              (reminder_event ''Call client'' ?out (today insert_fails_world (trace ?sb)) ?tm)
              = Some (Ext ''quotaExceeded'' None)"
    by (simp add: insert_fails_world_def stub_world_def)
  have c1: "create_reminder no_credentials_world ''Call client'' (start_state [])
              = (''AI reminder created, but calendar integration failed: '' @ ?m, ?sa)"
    using create_reminder_calendar_failure [OF r1 n, THEN conjunct1, rule_format, OF g1] .
  have "create_reminder insert_fails_world ''Call client'' (start_state [])
          = (''Error creating reminder: '' @ exn_str insert_fails_world (Ext ''quotaExceeded'' None),
             log (InsertEvent ''primary''
                    (reminder_event ''Call client'' ?out (today insert_fails_world (trace ?sb)) ?tm))
               ?sb)"
    using create_reminder_calendar_failure
            [OF r2 n, THEN conjunct2, rule_format, OF conjI [OF g2 conjI [OF d2' i2]]] .
  then have c2: "create_reminder insert_fails_world ''Call client'' (start_state [])
          = (''Error creating reminder: '' @ ''quotaExceeded'',
             log (InsertEvent ''primary'' (reminder_event ''Call client'' ?out ?td ?tm)) ?sb)"
    unfolding t2 by simp
  show ?thesis
    using r1 r2 n g1 g2 d2 c1 c2 by (intro conjI) simp_all
qed

text \<open>
  C1 as the specification states it (the returned string still contains the agent's output) fails on
  both failures of the calendar step: with no credentials, and with an insert call that
  raises, the agent's text \<open>Noted. Create a reminder for: Call client\<close> is not part of
  what \<open>create_reminder\<close> returns.
\<close>

theorem create_reminder_drops_agent_text:
  "agent_reply no_credentials_world (trace (start_state [])) TaskAgent
     (''Create a reminder for: '' @ ''Call client'')
     = Inr ''Noted. Create a reminder for: Call client''
   \<and> \<not> contains handoff_sentinel ''Noted. Create a reminder for: Call client''
   \<and> fst (get_calendar_service no_credentials_world
             (log (RunAgent TaskAgent ''Create a reminder for: Call client'') (start_state [])))
     = Inr (ErrorMessage
              (''Error authorizing Google Calendar: credentials.json not found''
                 @ ''. Pre-authenticate by running option 3 once and approving the OAuth prompt.''))
   \<and> fst (create_reminder no_credentials_world ''Call client'' (start_state []))
     = ''AI reminder created, but calendar integration failed: ''
         @ ''Error authorizing Google Calendar: credentials.json not found''
         @ ''. Pre-authenticate by running option 3 once and approving the OAuth prompt.''
   \<and> \<not> contains ''Noted. Create a reminder for: Call client''
         (fst (create_reminder no_credentials_world ''Call client'' (start_state [])))
   \<and> agent_reply insert_fails_world (trace (start_state [])) TaskAgent
     (''Create a reminder for: '' @ ''Call client'')
     = Inr ''Noted. Create a reminder for: Call client''
   \<and> fst (create_reminder insert_fails_world ''Call client'' (start_state []))
     = ''Error creating reminder: quotaExceeded''
   \<and> \<not> contains ''Noted. Create a reminder for: Call client''
         (fst (create_reminder insert_fails_world ''Call client'' (start_state [])))"
  by code_simp

end
